theory Spec2Isabelle
  imports Complex_Main "HOL-Library.Char_ord" "HOL-Library.List_Lexorder" "HOL-Library.Sublist"
begin

section \<open>Python values\<close>

text \<open>
  The orchestrator and the post-processor work on loosely typed data: the request, the
  provider results and the itineraries produced by the language model are Python
  dictionaries, lists, strings and numbers as \<^verbatim>\<open>json.loads\<close> builds them. A dictionary is
  an association list in insertion order with unique keys. A Python \<^verbatim>\<open>float\<close> is modelled
  by the exact rational it denotes: additions are exact in the model, NaN and the
  infinities are not represented.
\<close>

datatype pyval =
    PNone
  | PBool bool
  | PInt int
  | PFloat rat
  | PStr string
  | PList "pyval list"
  | PDict "(string \<times> pyval) list"

text \<open>An exception that leaves a function is the left summand of its result.\<close>

datatype exn =
    KeyError
  | TypeError
  | AttributeError
  | IndexError
  | ValueError
  | JSONDecodeError
  | RuntimeError

definition ebind :: "exn + 'a \<Rightarrow> ('a \<Rightarrow> exn + 'b) \<Rightarrow> exn + 'b" where
  "ebind m f = (case m of Inl e \<Rightarrow> Inl e | Inr a \<Rightarrow> f a)"

text \<open>\<^verbatim>\<open>d.get(k, default)\<close>: only a dictionary has the method.\<close>

definition dict_get :: "pyval \<Rightarrow> string \<Rightarrow> pyval \<Rightarrow> exn + pyval" where
  "dict_get d k dflt =
     (case d of
        PDict kvs \<Rightarrow> (case map_of kvs k of None \<Rightarrow> Inr dflt | Some v \<Rightarrow> Inr v)
      | _ \<Rightarrow> Inl AttributeError)"

text \<open>\<^verbatim>\<open>d[k]\<close> with a string key.\<close>

definition dict_item :: "pyval \<Rightarrow> string \<Rightarrow> exn + pyval" where
  "dict_item d k =
     (case d of
        PDict kvs \<Rightarrow> (case map_of kvs k of None \<Rightarrow> Inl KeyError | Some v \<Rightarrow> Inr v)
      | _ \<Rightarrow> Inl TypeError)"

text \<open>\<^verbatim>\<open>d[k] = v\<close> on a dictionary: an existing key keeps its place, a new key goes last.\<close>

fun assoc_set :: "(string \<times> pyval) list \<Rightarrow> string \<Rightarrow> pyval \<Rightarrow> (string \<times> pyval) list" where
  "assoc_set [] k v = [(k, v)]"
| "assoc_set ((k', v') # kvs) k v =
     (if k' = k then (k, v) # kvs else (k', v') # assoc_set kvs k v)"

definition dict_set :: "pyval \<Rightarrow> string \<Rightarrow> pyval \<Rightarrow> exn + pyval" where
  "dict_set d k v =
     (case d of PDict kvs \<Rightarrow> Inr (PDict (assoc_set kvs k v)) | _ \<Rightarrow> Inl TypeError)"

text \<open>Truth value of an object, as \<^verbatim>\<open>if x:\<close> and \<^verbatim>\<open>not x\<close> read it.\<close>

fun truthy :: "pyval \<Rightarrow> bool" where
  "truthy PNone = False"
| "truthy (PBool b) = b"
| "truthy (PInt i) = (i \<noteq> 0)"
| "truthy (PFloat r) = (r \<noteq> 0)"
| "truthy (PStr s) = (s \<noteq> [])"
| "truthy (PList xs) = (xs \<noteq> [])"
| "truthy (PDict kvs) = (kvs \<noteq> [])"

text \<open>
  \<^verbatim>\<open>isinstance(x, (int, float))\<close> together with the number denoted; \<^verbatim>\<open>bool\<close> is a
  subclass of \<^verbatim>\<open>int\<close>.
\<close>

fun num_of :: "pyval \<Rightarrow> rat option" where
  "num_of (PBool b) = Some (if b then 1 else 0)"
| "num_of (PInt i) = Some (of_int i)"
| "num_of (PFloat r) = Some r"
| "num_of _ = None"

text \<open>\<^verbatim>\<open>int(x)\<close> on a number truncates towards zero.\<close>

definition py_int :: "rat \<Rightarrow> int" where
  "py_int r = (if 0 \<le> r then \<lfloor>r\<rfloor> else \<lceil>r\<rceil>)"

text \<open>
  The elements a \<^verbatim>\<open>for\<close> loop visits: a list gives its elements, a dictionary its keys,
  a string its characters; the other values are not iterable.
\<close>

fun py_iter :: "pyval \<Rightarrow> exn + pyval list" where
  "py_iter (PList xs) = Inr xs"
| "py_iter (PDict kvs) = Inr (map (\<lambda>kv. PStr (fst kv)) kvs)"
| "py_iter (PStr s) = Inr (map (\<lambda>c. PStr [c]) s)"
| "py_iter _ = Inl TypeError"

text \<open>\<^verbatim>\<open>xs[i]\<close> with a non-negative integer index.\<close>

definition py_index :: "pyval \<Rightarrow> nat \<Rightarrow> exn + pyval" where
  "py_index v i =
     (case v of
        PList xs \<Rightarrow> (if i < length xs then Inr (xs ! i) else Inl IndexError)
      | PStr s \<Rightarrow> (if i < length s then Inr (PStr [s ! i]) else Inl IndexError)
      | PDict kvs \<Rightarrow> Inl KeyError
      | _ \<Rightarrow> Inl TypeError)"

text \<open>\<^verbatim>\<open>needle in haystack\<close> on strings: substring search.\<close>

fun starts_with :: "string \<Rightarrow> string \<Rightarrow> bool" where
  "starts_with [] s = True"
| "starts_with (c # cs) [] = False"
| "starts_with (c # cs) (d # ds) = (if c = d then starts_with cs ds else False)"

fun str_contains :: "string \<Rightarrow> string \<Rightarrow> bool" where
  "str_contains needle [] = (needle = [])"
| "str_contains needle (d # ds) =
     (if starts_with needle (d # ds) then True else str_contains needle ds)"






text \<open>Decimal digits of a natural number, as \<^verbatim>\<open>str\<close> prints an \<^verbatim>\<open>int\<close>.\<close>

definition digit_char :: "nat \<Rightarrow> char" where
  "digit_char d = ''0123456789'' ! d"

fun digits :: "nat \<Rightarrow> string" where
  "digits n =
     (if n < 10 then [digit_char n] else digits (n div 10) @ [digit_char (n mod 10)])"

declare digits.simps [simp del]

definition str_of_int :: "int \<Rightarrow> string" where
  "str_of_int i = (if i < 0 then CHR ''-'' # digits (nat (- i)) else digits (nat i))"

text \<open>\<^verbatim>\<open>sep.join(parts)\<close>.\<close>

fun join_with :: "string \<Rightarrow> string list \<Rightarrow> string" where
  "join_with sep [] = []"
| "join_with sep [x] = x"
| "join_with sep (x # y # ys) = x @ sep @ join_with sep (y # ys)"

text \<open>
  \<^verbatim>\<open>repr\<close> of a string. A string is the list of the bytes of its UTF-8 encoding, so a
  substring test on code points is a substring test on bytes. The quote is the double
  quote when the string holds a single quote and no double quote; the backslash, the
  quote, tab, newline and carriage return are escaped, other ASCII control characters are
  written \<^verbatim>\<open>\xNN\<close>; bytes of non-ASCII characters are kept (printable text).
\<close>

definition hex_digit :: "nat \<Rightarrow> char" where
  "hex_digit n = ''0123456789abcdef'' ! n"

definition repr_char :: "char \<Rightarrow> char \<Rightarrow> string" where
  "repr_char q c =
     (if c = CHR 0x5C \<or> c = q then [CHR 0x5C, c]
      else if c = CHR 0x09 then [CHR 0x5C, CHR ''t'']
      else if c = CHR 0x0A then [CHR 0x5C, CHR ''n'']
      else if c = CHR 0x0D then [CHR 0x5C, CHR ''r'']
      else if (of_char c :: nat) < 32 \<or> c = CHR 0x7F
        then [CHR 0x5C, CHR ''x'', hex_digit (of_char c div 16), hex_digit (of_char c mod 16)]
      else [c])"

definition repr_str :: "string \<Rightarrow> string" where
  "repr_str s =
     (let q = (if CHR 0x27 \<in> set s \<and> CHR 0x22 \<notin> set s then CHR 0x22 else CHR 0x27)
      in q # concat (map (repr_char q) s) @ [q])"

text \<open>
  \<^verbatim>\<open>repr\<close> of a value, which is what \<^verbatim>\<open>str\<close> of a dictionary or a list prints for its
  parts. The text of a \<^verbatim>\<open>float\<close> is a parameter of the model.
\<close>

fun py_repr :: "(rat \<Rightarrow> string) \<Rightarrow> pyval \<Rightarrow> string" where
  "py_repr fr PNone = ''None''"
| "py_repr fr (PBool b) = (if b then ''True'' else ''False'')"
| "py_repr fr (PInt i) = str_of_int i"
| "py_repr fr (PFloat r) = fr r"
| "py_repr fr (PStr s) = repr_str s"
| "py_repr fr (PList xs) = ''['' @ join_with '', '' (map (py_repr fr) xs) @ '']''"
| "py_repr fr (PDict kvs) =
     ''{'' @ join_with '', '' (map (\<lambda>(k, v). repr_str k @ '': '' @ py_repr fr v) kvs) @ ''}''"

text \<open>\<^verbatim>\<open>str(x)\<close>: a string prints as itself, everything else as its \<^verbatim>\<open>repr\<close>.\<close>

definition py_str :: "(rat \<Rightarrow> string) \<Rightarrow> pyval \<Rightarrow> string" where
  "py_str fr v = (case v of PStr s \<Rightarrow> s | _ \<Rightarrow> py_repr fr v)"

text \<open>
  \<^verbatim>\<open>s.lower()\<close> on the ASCII letters; the bytes of non-ASCII characters are unchanged
  (Hangul has no case).
\<close>

definition lower_char :: "char \<Rightarrow> char" where
  "lower_char c =
     (case map_of (zip ''ABCDEFGHIJKLMNOPQRSTUVWXYZ'' ''abcdefghijklmnopqrstuvwxyz'') c of
        None \<Rightarrow> c
      | Some l \<Rightarrow> l)"

definition py_lower :: "string \<Rightarrow> string" where
  "py_lower s = map lower_char s"

section \<open>Reconciliation: the daily cost pass of \<^verbatim>\<open>plan\<close>\<close>






section \<open>The budget summary of \<^verbatim>\<open>plan\<close>\<close>












section \<open>The style classifier: \<^verbatim>\<open>StylistAgent.analyze_travel_style\<close>\<close>

text \<open>
  The table \<^verbatim>\<open>self.travel_styles\<close> in declaration order, with the display name and the
  keywords of each style (the characteristics and recommendation lists of a style are
  only quoted in prompts and are left out). Korean text is written as its UTF-8 bytes.
\<close>

record style_info =
  style_name :: string
  style_keywords :: "string list"

definition travel_styles :: "(string \<times> style_info) list" where
  "travel_styles =
     [(''family'',
        \<lparr> style_name = [CHR 0xEA, CHR 0xB0, CHR 0x80, CHR 0xEC, CHR 0xA1, CHR 0xB1, CHR 0xEC, CHR 0x97, CHR 0xAC, CHR 0xED, CHR 0x96, CHR 0x89],
          style_keywords =
           [''family'',
            ''kids'',
            ''children'',
            [CHR 0xEA, CHR 0xB0, CHR 0x80, CHR 0xEC, CHR 0xA1, CHR 0xB1],
            [CHR 0xEC, CHR 0x95, CHR 0x84, CHR 0xEC, CHR 0x9D, CHR 0xB4],
            [CHR 0xEC, CHR 0x96, CHR 0xB4, CHR 0xEB, CHR 0xA6, CHR 0xB0, CHR 0xEC, CHR 0x9D, CHR 0xB4]] \<rparr>),
      (''business'',
        \<lparr> style_name = [CHR 0xEB, CHR 0xB9, CHR 0x84, CHR 0xEC, CHR 0xA6, CHR 0x88, CHR 0xEB, CHR 0x8B, CHR 0x88, CHR 0xEC, CHR 0x8A, CHR 0xA4],
          style_keywords =
           [''business'',
            ''corporate'',
            ''meeting'',
            ''conference'',
            [CHR 0xEB, CHR 0xB9, CHR 0x84, CHR 0xEC, CHR 0xA6, CHR 0x88, CHR 0xEB, CHR 0x8B, CHR 0x88, CHR 0xEC, CHR 0x8A, CHR 0xA4],
            [CHR 0xEC, CHR 0x97, CHR 0x85, CHR 0xEB, CHR 0xAC, CHR 0xB4],
            [CHR 0xED, CHR 0x9A, CHR 0x8C, CHR 0xEC, CHR 0x9D, CHR 0x98]] \<rparr>),
      (''backpacker'',
        \<lparr> style_name = [CHR 0xEB, CHR 0xB0, CHR 0xB1, CHR 0xED, CHR 0x8C, CHR 0xA8, CHR 0xED, CHR 0x82, CHR 0xB9],
          style_keywords =
           [''backpacker'',
            ''budget'',
            ''hostel'',
            ''cheap'',
            [CHR 0xEB, CHR 0xB0, CHR 0xB1, CHR 0xED, CHR 0x8C, CHR 0xA8, CHR 0xEC, CHR 0xBB, CHR 0xA4],
            [CHR 0xEB, CHR 0xB0, CHR 0xB0, CHR 0xEB, CHR 0x82, CHR 0xAD, CHR 0xEC, CHR 0x97, CHR 0xAC, CHR 0xED, CHR 0x96, CHR 0x89],
            [CHR 0xEC, CHR 0xA0, CHR 0x80, CHR 0xEB, CHR 0xA0, CHR 0xB4]] \<rparr>),
      (''cultural'',
        \<lparr> style_name = [CHR 0xEB, CHR 0xAC, CHR 0xB8, CHR 0xED, CHR 0x99, CHR 0x94, CHR 0xED, CHR 0x83, CHR 0x90, CHR 0xEB, CHR 0xB0, CHR 0xA9],
          style_keywords =
           [''culture'',
            ''history'',
            ''museum'',
            ''heritage'',
            [CHR 0xEB, CHR 0xAC, CHR 0xB8, CHR 0xED, CHR 0x99, CHR 0x94],
            [CHR 0xEC, CHR 0x97, CHR 0xAD, CHR 0xEC, CHR 0x82, CHR 0xAC],
            [CHR 0xEB, CHR 0xB0, CHR 0x95, CHR 0xEB, CHR 0xAC, CHR 0xBC, CHR 0xEA, CHR 0xB4, CHR 0x80],
            [CHR 0xEC, CHR 0x9C, CHR 0xA0, CHR 0xEC, CHR 0x82, CHR 0xB0]] \<rparr>),
      (''luxury'',
        \<lparr> style_name = [CHR 0xEB, CHR 0x9F, CHR 0xAD, CHR 0xEC, CHR 0x85, CHR 0x94, CHR 0xEB, CHR 0xA6, CHR 0xAC],
          style_keywords =
           [''luxury'',
            ''premium'',
            ''high-end'',
            ''exclusive'',
            [CHR 0xEB, CHR 0x9F, CHR 0xAD, CHR 0xEC, CHR 0x85, CHR 0x94, CHR 0xEB, CHR 0xA6, CHR 0xAC],
            [CHR 0xED, CHR 0x94, CHR 0x84, CHR 0xEB, CHR 0xA6, CHR 0xAC, CHR 0xEB, CHR 0xAF, CHR 0xB8, CHR 0xEC, CHR 0x97, CHR 0x84],
            [CHR 0xEA, CHR 0xB3, CHR 0xA0, CHR 0xEA, CHR 0xB8, CHR 0x89]] \<rparr>),
      (''adventure'',
        \<lparr> style_name = [CHR 0xEB, CHR 0xAA, CHR 0xA8, CHR 0xED, CHR 0x97, CHR 0x98, CHR 0xEC, CHR 0x97, CHR 0xAC, CHR 0xED, CHR 0x96, CHR 0x89],
          style_keywords =
           [''adventure'',
            ''outdoor'',
            ''extreme'',
            ''hiking'',
            [CHR 0xEB, CHR 0xAA, CHR 0xA8, CHR 0xED, CHR 0x97, CHR 0x98],
            [CHR 0xEC, CHR 0x95, CHR 0x84, CHR 0xEC, CHR 0x9B, CHR 0x83, CHR 0xEB, CHR 0x8F, CHR 0x84, CHR 0xEC, CHR 0x96, CHR 0xB4],
            [CHR 0xEB, CHR 0x93, CHR 0xB1, CHR 0xEC, CHR 0x82, CHR 0xB0],
            [CHR 0xEC, CHR 0x9D, CHR 0xB5, CHR 0xEC, CHR 0x8A, CHR 0xA4, CHR 0xED, CHR 0x8A, CHR 0xB8, CHR 0xEB, CHR 0xA6, CHR 0xBC]] \<rparr>)]"

record style_score =
  score :: nat
  matched_keywords :: "string list"
  info :: style_info

text \<open>The keywords of a style that occur in the text; the score is their number.\<close>

definition score_style :: "string \<Rightarrow> style_info \<Rightarrow> style_score" where
  "score_style user_text si =
     (let matched = filter (\<lambda>keyword. str_contains keyword user_text) (style_keywords si)
      in \<lparr> score = length matched, matched_keywords = matched, info = si \<rparr>)"

definition style_scores :: "string \<Rightarrow> (string \<times> style_score) list" where
  "style_scores user_text = map (\<lambda>(style_id, si). (style_id, score_style user_text si)) travel_styles"

text \<open>
  \<^verbatim>\<open>max(items, key=...)\<close> returns the first item whose key is maximal: a later item
  replaces the best one only when its key is strictly larger.
\<close>

fun max_by_score :: "(string \<times> style_score) \<Rightarrow> (string \<times> style_score) list \<Rightarrow> (string \<times> style_score)" where
  "max_by_score best [] = best"
| "max_by_score best (x # xs) =
     max_by_score (if score (snd best) < score (snd x) then x else best) xs"

text \<open>\<^verbatim>\<open>a >= b\<close> and \<^verbatim>\<open>a <= b\<close> against an integer constant; a value that is not a number raises.\<close>

definition py_ge_int :: "pyval \<Rightarrow> int \<Rightarrow> exn + bool" where
  "py_ge_int v k = (case num_of v of None \<Rightarrow> Inl TypeError | Some r \<Rightarrow> Inr (of_int k \<le> r))"

definition py_le_int :: "pyval \<Rightarrow> int \<Rightarrow> exn + bool" where
  "py_le_int v k = (case num_of v of None \<Rightarrow> Inl TypeError | Some r \<Rightarrow> Inr (r \<le> of_int k))"

definition lookup_style :: "string \<Rightarrow> (string \<times> style_score) list \<Rightarrow> exn + (string \<times> style_score)" where
  "lookup_style style_id scores =
     (case map_of scores style_id of None \<Rightarrow> Inl KeyError | Some sc \<Rightarrow> Inr (style_id, sc))"

text \<open>The fallback taken when the best score is 0.\<close>

definition fallback_style :: "pyval \<Rightarrow> (string \<times> style_score) list \<Rightarrow> exn + (string \<times> style_score)" where
  "fallback_style query scores =
     ebind (dict_get query ''people'' (PInt 1)) (\<lambda>people.
     ebind (dict_get query ''budget'' (PInt 0)) (\<lambda>budget.
     ebind (py_ge_int people 3) (\<lambda>many.
       if many then lookup_style ''family'' scores
       else ebind (py_ge_int budget 3000000) (\<lambda>rich.
         if rich then lookup_style ''luxury'' scores
         else ebind (py_le_int budget 1000000) (\<lambda>poor.
           if poor then lookup_style ''backpacker'' scores
           else lookup_style ''cultural'' scores)))))"

record style_analysis =
  primary_style :: string
  analysis_style_name :: string
  confidence :: nat
  analysis_matched_keywords :: "string list"
  all_scores :: "(string \<times> style_score) list"

definition analysis_of :: "(string \<times> style_score) \<Rightarrow> (string \<times> style_score) list \<Rightarrow> style_analysis" where
  "analysis_of primary scores =
     \<lparr> primary_style = fst primary,
       analysis_style_name = style_name (info (snd primary)),
       confidence = score (snd primary),
       analysis_matched_keywords = matched_keywords (snd primary),
       all_scores = scores \<rparr>"

text \<open>
  \<^verbatim>\<open>analyze_travel_style(query)\<close>. The text that is searched is
  \<^verbatim>\<open>str(query).lower()\<close>: the printed form of the whole dictionary, its keys included.
\<close>

definition analyze_travel_style :: "(rat \<Rightarrow> string) \<Rightarrow> pyval \<Rightarrow> exn + style_analysis" where
  "analyze_travel_style fr query =
     (let user_text = py_lower (py_str fr query);
          scores = style_scores user_text
      in case scores of
           [] \<Rightarrow> Inl ValueError
         | first # rest \<Rightarrow>
             (let primary = max_by_score first rest
              in if score (snd primary) = 0
                 then ebind (fallback_style query scores) (\<lambda>p. Inr (analysis_of p scores))
                 else Inr (analysis_of primary scores)))"

section \<open>The orchestrator: \<^verbatim>\<open>MCPServer\<close>\<close>

text \<open>
  One entry of \<^verbatim>\<open>command_history\<close>. The time stamps of a command are left out.
\<close>

record command =
  cmd_id :: nat
  cmd_from :: string
  cmd_to :: string
  cmd_name :: string
  cmd_params :: pyval
  cmd_status :: string
  cmd_result :: pyval

text \<open>
  Calls that leave the server are recorded in a trace, so that a property can speak
  about which collaborator was invoked and with what.
\<close>

datatype event =
    ToolCall string string pyval
  | AgentProcess string pyval
  | AgentGenerate string string

record collaboration_log =
  log_query :: pyval
  mcp_commands :: "command list"
  log_entries :: "(string \<times> pyval) list"

record server =
  command_history :: "command list"
  collaboration_history :: "collaboration_log list"
  calls :: "event list"

text \<open>\<^verbatim>\<open>MCPServer.__init__\<close>.\<close>

definition new_server :: server where
  "new_server = \<lparr> command_history = [], collaboration_history = [], calls = [] \<rparr>"

text \<open>
  The registered agents and tools and the library functions the orchestrator relies on.
  A tool is a table of methods, an agent has \<^verbatim>\<open>process\<close> and \<^verbatim>\<open>generate_response\<close>; each
  returns a value or raises. The text of the refinement prompt and the JSON parser are
  parameters.
\<close>

record agent =
  process :: "pyval \<Rightarrow> exn + pyval"
  generate_response :: "string \<Rightarrow> exn + pyval"

record env =
  tools :: "(string \<times> (string \<Rightarrow> (pyval \<Rightarrow> exn + pyval) option)) list"
  agents :: "(string \<times> agent) list"
  create_refinement_prompt :: "pyval \<Rightarrow> pyval \<Rightarrow> pyval \<Rightarrow> pyval \<Rightarrow> pyval \<Rightarrow> pyval \<Rightarrow> exn + string"
  json_loads :: "pyval \<Rightarrow> exn + pyval"
  float_repr :: "rat \<Rightarrow> string"
  places_api_key :: string

text \<open>A method of the server: it may change the server and may raise.\<close>

type_synonym 'a act = "server \<Rightarrow> (exn + 'a) \<times> server"

definition ret :: "'a \<Rightarrow> 'a act" where
  "ret a s = (Inr a, s)"

definition lift :: "exn + 'a \<Rightarrow> 'a act" where
  "lift r s = (r, s)"

definition sbind :: "'a act \<Rightarrow> ('a \<Rightarrow> 'b act) \<Rightarrow> 'b act" where
  "sbind m f s = (case m s of (Inl e, s') \<Rightarrow> (Inl e, s') | (Inr a, s') \<Rightarrow> f a s')"

definition record_call :: "event \<Rightarrow> unit act" where
  "record_call ev s = (Inr (), s\<lparr>calls := calls s @ [ev]\<rparr>)"

text \<open>\<^verbatim>\<open>send_command\<close>: the id is the length of the history plus one.\<close>

definition send_command :: "string \<Rightarrow> string \<Rightarrow> string \<Rightarrow> pyval \<Rightarrow> command act" where
  "send_command from_agent to_agent cmd params s =
     (let c = \<lparr> cmd_id = length (command_history s) + 1, cmd_from = from_agent,
                 cmd_to = to_agent, cmd_name = cmd, cmd_params = params,
                 cmd_status = ''pending'', cmd_result = PNone \<rparr>
      in (Inr c, s\<lparr>command_history := command_history s @ [c]\<rparr>))"

text \<open>\<^verbatim>\<open>complete_command\<close>: the first command with the id is updated, then the loop breaks.\<close>

fun mark_first :: "nat \<Rightarrow> string \<Rightarrow> pyval \<Rightarrow> command list \<Rightarrow> command list" where
  "mark_first cid status result [] = []"
| "mark_first cid status result (c # cs) =
     (if cmd_id c = cid then c\<lparr>cmd_status := status, cmd_result := result\<rparr> # cs
      else c # mark_first cid status result cs)"

definition complete_command :: "nat \<Rightarrow> string \<Rightarrow> pyval \<Rightarrow> unit act" where
  "complete_command cid status result s =
     (Inr (), s\<lparr>command_history := mark_first cid status result (command_history s)\<rparr>)"

text \<open>
  \<^verbatim>\<open>call_api_tool\<close> never raises: a missing tool, a missing method and an exception of
  the method become a failure result (the text of the exception is not modelled).
\<close>

definition failure_result :: "string \<Rightarrow> pyval" where
  "failure_result msg = PDict [(''success'', PBool False), (''error'', PStr msg)]"

definition call_api_tool :: "env \<Rightarrow> string \<Rightarrow> string \<Rightarrow> pyval \<Rightarrow> pyval act" where
  "call_api_tool e tool_name method kwargs =
     (case map_of (tools e) tool_name of
        None \<Rightarrow> ret (failure_result (''Tool '' @ tool_name @ '' not found''))
      | Some tool \<Rightarrow>
          (case tool method of
             None \<Rightarrow> ret (failure_result (''Method '' @ method @ '' not found in tool '' @ tool_name))
           | Some f \<Rightarrow>
               sbind (record_call (ToolCall tool_name method kwargs)) (\<lambda>_.
                 case f kwargs of
                   Inl AttributeError \<Rightarrow>
                     ret (failure_result (''Method '' @ method @ '' not found in tool '' @ tool_name))
                 | Inl ex \<Rightarrow> ret (failure_result ''Tool execution error'')
                 | Inr r \<Rightarrow> ret r)))"

text \<open>
  \<^verbatim>\<open>destination.split(',')[0].strip()\<close>: the text before the first comma without the
  surrounding ASCII white space.
\<close>

definition is_space :: "char \<Rightarrow> bool" where
  "is_space c = (c \<in> set [CHR 0x20, CHR 0x09, CHR 0x0A, CHR 0x0B, CHR 0x0C, CHR 0x0D])"

definition strip :: "string \<Rightarrow> string" where
  "strip s = rev (dropWhile is_space (rev (dropWhile is_space s)))"

definition city_only :: "pyval \<Rightarrow> exn + string" where
  "city_only destination =
     (case destination of
        PStr s \<Rightarrow> Inr (strip (takeWhile (\<lambda>c. c \<noteq> CHR '','') s))
      | _ \<Rightarrow> Inl AttributeError)"

text \<open>\<^verbatim>\<open>len(x)\<close>.\<close>

definition py_len :: "pyval \<Rightarrow> exn + nat" where
  "py_len v =
     (case v of
        PList xs \<Rightarrow> Inr (length xs)
      | PStr s \<Rightarrow> Inr (length s)
      | PDict kvs \<Rightarrow> Inr (length kvs)
      | _ \<Rightarrow> Inl TypeError)"

subsection \<open>The weather step\<close>

text \<open>
  Membership in the set \<^verbatim>\<open>existing_dates\<close>: numbers are equal by value, other values
  when they are the same; a list or a dictionary is not hashable.
\<close>

definition hashable :: "pyval \<Rightarrow> bool" where
  "hashable v = (case v of PList xs \<Rightarrow> False | PDict kvs \<Rightarrow> False | _ \<Rightarrow> True)"

definition key_eq :: "pyval \<Rightarrow> pyval \<Rightarrow> bool" where
  "key_eq a b =
     (case (num_of a, num_of b) of
        (Some x, Some y) \<Rightarrow> x = y
      | (None, None) \<Rightarrow> a = b
      | _ \<Rightarrow> False)"

definition in_dates :: "pyval \<Rightarrow> pyval list \<Rightarrow> bool" where
  "in_dates d existing = (\<exists>e \<in> set existing. key_eq d e)"

text \<open>\<^verbatim>\<open>{f['date'] for f in forecast_list}\<close>.\<close>

fun existing_dates :: "pyval list \<Rightarrow> exn + pyval list" where
  "existing_dates [] = Inr []"
| "existing_dates (f # fs) =
     ebind (dict_item f ''date'') (\<lambda>d.
       if \<not> hashable d then Inl TypeError
       else ebind (existing_dates fs) (\<lambda>ds. Inr (d # ds)))"

text \<open>
  The loop over \<^verbatim>\<open>new_forecast\<close>: an entry whose date is not yet known is appended and
  its date is remembered.
\<close>

fun merge_new :: "pyval list \<Rightarrow> pyval list \<Rightarrow> pyval list \<Rightarrow> exn + pyval list" where
  "merge_new existing forecast_list [] = Inr forecast_list"
| "merge_new existing forecast_list (new_f # rest) =
     ebind (dict_get new_f ''date'' PNone) (\<lambda>d.
       if \<not> hashable d then Inl TypeError
       else if in_dates d existing then merge_new existing forecast_list rest
       else merge_new (existing @ [d]) (forecast_list @ [new_f]) rest)"

text \<open>
  \<^verbatim>\<open>forecast_list.sort(key=lambda x: x.get('date', ''))\<close>. The sort is stable. Keys that
  are all strings are compared as strings and keys that are all numbers as numbers; any
  other mix of keys in a list of two or more entries raises \<^verbatim>\<open>TypeError\<close>.
\<close>

fun sort_keys :: "pyval list \<Rightarrow> exn + pyval list" where
  "sort_keys [] = Inr []"
| "sort_keys (x # xs) =
     ebind (dict_get x ''date'' (PStr [])) (\<lambda>k.
     ebind (sort_keys xs) (\<lambda>ks. Inr (k # ks)))"

definition str_key :: "pyval \<Rightarrow> string" where
  "str_key x = (case dict_get x ''date'' (PStr []) of Inr (PStr s) \<Rightarrow> s | _ \<Rightarrow> [])"

definition num_key :: "pyval \<Rightarrow> rat" where
  "num_key x =
     (case dict_get x ''date'' (PStr []) of
        Inr v \<Rightarrow> (case num_of v of Some r \<Rightarrow> r | None \<Rightarrow> 0)
      | Inl e \<Rightarrow> 0)"

definition is_str :: "pyval \<Rightarrow> bool" where
  "is_str v = (case v of PStr s \<Rightarrow> True | _ \<Rightarrow> False)"

definition sort_by_date :: "pyval list \<Rightarrow> exn + pyval list" where
  "sort_by_date xs =
     ebind (sort_keys xs) (\<lambda>ks.
       if length xs \<le> 1 then Inr xs
       else if list_all is_str ks then Inr (sort_key str_key xs)
       else if list_all (\<lambda>k. num_of k \<noteq> None) ks then Inr (sort_key num_key xs)
       else Inl TypeError)"

text \<open>
  The body of \<^verbatim>\<open>if weather_forecast_result.get('success')\<close>: merge the supplementary
  forecast into the first one by date and sort.
\<close>

definition merge_forecasts :: "pyval \<Rightarrow> pyval \<Rightarrow> exn + pyval" where
  "merge_forecasts forecast_list new_forecast =
     ebind (py_iter forecast_list) (\<lambda>fs.
     ebind (existing_dates fs) (\<lambda>existing.
     ebind (py_iter new_forecast) (\<lambda>ns.
       case forecast_list of
         PList xs \<Rightarrow>
           ebind (merge_new existing xs ns) (\<lambda>merged.
           ebind (sort_by_date merged) (\<lambda>sorted. Inr (PList sorted)))
       | _ \<Rightarrow> Inl AttributeError)))"

text \<open>
  \<^verbatim>\<open>days_of_trip > 0 and len(forecast_list) < days_of_trip\<close>; the length is only taken
  when the day count is positive.
\<close>

definition forecast_incomplete :: "pyval \<Rightarrow> pyval \<Rightarrow> exn + bool" where
  "forecast_incomplete days_of_trip forecast_list =
     (case num_of days_of_trip of
        None \<Rightarrow> Inl TypeError
      | Some d \<Rightarrow>
          if \<not> 0 < d then Inr False
          else ebind (py_len forecast_list) (\<lambda>n. Inr (of_nat n < d)))"

text \<open>\<^verbatim>\<open>min(days_to_request, 5)\<close> for a number.\<close>

definition min_days :: "pyval \<Rightarrow> pyval" where
  "min_days days = (case num_of days of Some d \<Rightarrow> (if 5 < d then PInt 5 else days) | None \<Rightarrow> days)"

text \<open>
  The supplementary request of the weather step, issued when the first forecast is
  shorter than the trip: one call of \<^verbatim>\<open>get_forecast\<close>, merged in when it succeeds.
\<close>

definition supplement_forecast :: "env \<Rightarrow> string \<Rightarrow> pyval \<Rightarrow> pyval \<Rightarrow> pyval act" where
  "supplement_forecast e city days_of_trip forecast_list =
     sbind (call_api_tool e ''weather'' ''get_forecast''
              (PDict [(''city'', PStr city), (''days'', min_days days_of_trip)])) (\<lambda>r2.
     sbind (lift (dict_get r2 ''success'' PNone)) (\<lambda>suc2.
       if truthy suc2
       then sbind (lift (dict_get r2 ''forecast'' (PList []))) (\<lambda>new_forecast.
              lift (merge_forecasts forecast_list new_forecast))
       else ret forecast_list))"

text \<open>
  The weather step. Its result is the value stored under \<^verbatim>\<open>weather_info\<close> in the
  collaboration log, if any.
\<close>

definition weather_step :: "env \<Rightarrow> pyval \<Rightarrow> pyval \<Rightarrow> string \<Rightarrow> pyval option act" where
  "weather_step e query destination city =
     (if \<not> (truthy destination \<and> map_of (tools e) ''weather'' \<noteq> None) then ret None
      else
        sbind (lift (dict_get query ''departure_date'' PNone)) (\<lambda>departure_date.
        sbind (lift (dict_get query ''return_date'' PNone)) (\<lambda>return_date.
        sbind (send_command ''system'' ''weather_api'' ''GET_WEATHER_INFO''
                 (PDict [(''city'', destination),
                         (''dates'', PStr (py_str (float_repr e) departure_date @ '' ~ ''
                                           @ py_str (float_repr e) return_date))])) (\<lambda>cmd_weather.
        sbind (if truthy departure_date \<and> truthy return_date
               then call_api_tool e ''weather'' ''get_weather_for_dates''
                      (PDict [(''city'', PStr city), (''departure_date'', departure_date),
                              (''return_date'', return_date)])
               else call_api_tool e ''weather'' ''get_current_weather''
                      (PDict [(''city'', PStr city)])) (\<lambda>weather_result.
        sbind (lift (dict_get weather_result ''success'' PNone)) (\<lambda>suc.
          if \<not> truthy suc then ret None
          else
            sbind (lift (dict_get weather_result ''forecast'' (PList []))) (\<lambda>forecast_list.
            sbind (lift (dict_get query ''days'' (PInt 0))) (\<lambda>days_of_trip.
            sbind (lift (forecast_incomplete days_of_trip forecast_list)) (\<lambda>incomplete.
            sbind (if incomplete then supplement_forecast e city days_of_trip forecast_list
                   else ret forecast_list) (\<lambda>forecast_list'.
            sbind (lift (dict_set weather_result ''forecast'' forecast_list')) (\<lambda>weather_result'.
            sbind (complete_command (cmd_id cmd_weather) ''completed''
                     (PStr ''Weather data retrieved'')) (\<lambda>_.
              ret (Some weather_result')))))))))))))"

subsection \<open>Flights, hotels, style\<close>

definition search_kwargs :: "pyval \<Rightarrow> string \<Rightarrow> exn + (pyval \<times> pyval \<times> pyval \<times> pyval)" where
  "search_kwargs query city =
     ebind (dict_get query ''origin'' PNone) (\<lambda>origin.
     ebind (dict_get query ''departure_date'' PNone) (\<lambda>dep.
     ebind (dict_get query ''return_date'' PNone) (\<lambda>rtn.
     ebind (dict_get query ''people'' (PInt 2)) (\<lambda>people.
       Inr (origin, dep, rtn, people)))))"

definition count_text :: "nat \<Rightarrow> string \<Rightarrow> pyval" where
  "count_text n what = PStr (digits n @ what)"

definition flight_step :: "env \<Rightarrow> pyval \<Rightarrow> string \<Rightarrow> pyval option act" where
  "flight_step e query city =
     (if map_of (tools e) ''flight'' = None then ret None
      else
        sbind (lift (search_kwargs query city)) (\<lambda>(origin, dep, rtn, people).
        sbind (send_command ''system'' ''flight_api'' ''SEARCH_FLIGHTS''
                 (PDict [(''origin'', origin), (''destination'', PStr city),
                         (''departure_date'', dep), (''return_date'', rtn),
                         (''adults'', people)])) (\<lambda>cmd_flight.
        sbind (call_api_tool e ''flight'' ''search_flights''
                 (PDict [(''origin'', origin), (''destination'', PStr city),
                         (''departure_date'', dep), (''return_date'', rtn),
                         (''adults'', people), (''max_results'', PInt 3)])) (\<lambda>flight_result.
        sbind (lift (dict_get flight_result ''success'' PNone)) (\<lambda>suc.
          if \<not> truthy suc then ret None
          else
            sbind (lift (dict_get flight_result ''flights'' (PList []))) (\<lambda>fl.
            sbind (lift (py_len fl)) (\<lambda>n.
            sbind (complete_command (cmd_id cmd_flight) ''completed''
                     (count_text n '' flights found'')) (\<lambda>_.
              ret (Some flight_result)))))))))"

definition hotel_step :: "env \<Rightarrow> pyval \<Rightarrow> string \<Rightarrow> pyval option act" where
  "hotel_step e query city =
     (if map_of (tools e) ''hotel'' = None then ret None
      else
        sbind (lift (search_kwargs query city)) (\<lambda>(origin, dep, rtn, people).
        sbind (send_command ''system'' ''hotel_api'' ''SEARCH_HOTELS''
                 (PDict [(''city'', PStr city), (''check_in_date'', dep),
                         (''check_out_date'', rtn), (''adults'', people)])) (\<lambda>cmd_hotel.
        sbind (call_api_tool e ''hotel'' ''search_hotels''
                 (PDict [(''city'', PStr city), (''check_in_date'', dep),
                         (''check_out_date'', rtn), (''adults'', people),
                         (''max_results'', PInt 5)])) (\<lambda>hotel_result.
        sbind (lift (dict_get hotel_result ''success'' PNone)) (\<lambda>suc.
          if \<not> truthy suc then ret None
          else
            sbind (lift (dict_get hotel_result ''hotels'' (PList []))) (\<lambda>hs.
            sbind (lift (py_len hs)) (\<lambda>n.
            sbind (complete_command (cmd_id cmd_hotel) ''completed''
                     (count_text n '' hotels found'')) (\<lambda>_.
              ret (Some hotel_result)))))))))"

text \<open>\<^verbatim>\<open>x or {}\<close> for a result that may not have been stored.\<close>

definition data_or_empty :: "pyval option \<Rightarrow> pyval" where
  "data_or_empty r = (case r of None \<Rightarrow> PDict [] | Some v \<Rightarrow> v)"

definition value_or_none :: "pyval option \<Rightarrow> pyval" where
  "value_or_none r = (case r of None \<Rightarrow> PNone | Some v \<Rightarrow> v)"

definition style_step :: "env \<Rightarrow> pyval \<Rightarrow> pyval act" where
  "style_step e query =
     sbind (send_command ''system'' ''stylist'' ''ANALYZE_TRAVEL_STYLE''
              (PDict [(''query'', query)])) (\<lambda>cmd_style.
       case map_of (agents e) ''stylist'' of
         None \<Rightarrow>
           sbind (complete_command (cmd_id cmd_style) ''failed''
                    (PStr ''Stylist agent not found'')) (\<lambda>_. ret (PDict []))
       | Some stylist \<Rightarrow>
           sbind (record_call (AgentProcess ''stylist'' query)) (\<lambda>_.
           sbind (lift (process stylist query)) (\<lambda>style_result.
           sbind (lift (dict_get style_result ''success'' PNone)) (\<lambda>suc.
             if truthy suc
             then
               sbind (lift (dict_item style_result ''data'')) (\<lambda>style_analysis.
               sbind (lift (dict_get style_analysis ''style_name'' PNone)) (\<lambda>name.
               sbind (complete_command (cmd_id cmd_style) ''completed''
                        (PStr (''Style: '' @ py_str (float_repr e) name))) (\<lambda>_.
                 ret style_analysis)))
             else
               sbind (complete_command (cmd_id cmd_style) ''failed''
                        (PStr ''Style analysis failed'')) (\<lambda>_. ret (PDict []))))))"

subsection \<open>Draft, places, review, refinement\<close>

text \<open>
  The draft step. \<open>None\<close> is the early return \<^verbatim>\<open>{"error": "Planner agent not found"}\<close>;
  otherwise the planner and the draft itinerary \<^verbatim>\<open>planner_response.get("itinerary", {})\<close>.
\<close>

definition draft_step ::
  "env \<Rightarrow> pyval \<Rightarrow> pyval option \<Rightarrow> pyval option \<Rightarrow> pyval option \<Rightarrow> pyval
     \<Rightarrow> (agent \<times> pyval) option act" where
  "draft_step e query weather flights hotels style_analysis =
     sbind (lift (dict_get query ''origin'' PNone)) (\<lambda>origin.
     sbind (lift (dict_get query ''destination'' PNone)) (\<lambda>dest.
     sbind (lift (dict_get query ''days'' PNone)) (\<lambda>days.
     sbind (lift (dict_get query ''people'' PNone)) (\<lambda>people.
     sbind (lift (dict_get query ''budget'' PNone)) (\<lambda>budget.
     sbind (send_command ''user'' ''planner'' ''CREATE_ITINERARY''
              (PDict [(''origin'', origin), (''destination'', dest), (''days'', days),
                      (''people'', people), (''budget'', budget),
                      (''weather_info'', value_or_none weather)])) (\<lambda>cmd1.
       case map_of (agents e) ''planner'' of
         None \<Rightarrow>
           sbind (complete_command (cmd_id cmd1) ''failed''
                    (PStr ''Planner agent not found'')) (\<lambda>_. ret None)
       | Some planner \<Rightarrow>
           (let planner_request = PDict
                  [(''query'', query), (''style_info'', style_analysis),
                   (''context'', value_or_none weather),
                   (''hotel_info'', data_or_empty hotels),
                   (''flight_info'', data_or_empty flights),
                   (''places_info'', PDict [])]
            in sbind (record_call (AgentProcess ''planner'' planner_request)) (\<lambda>_.
               sbind (lift (process planner planner_request)) (\<lambda>planner_response.
               sbind (lift (dict_get planner_response ''itinerary'' (PDict []))) (\<lambda>initial.
               sbind (complete_command (cmd_id cmd1) ''completed''
                        (PStr ''Initial itinerary created'')) (\<lambda>_.
                 ret (Some (planner, initial)))))))))))))"

text \<open>
  The photo link of a nearby restaurant: set when the restaurant has a first photo with
  a photo reference. The link carries the API key of the places tool, a parameter here.
\<close>

definition add_photo_url :: "env \<Rightarrow> string \<Rightarrow> pyval \<Rightarrow> exn + pyval" where
  "add_photo_url e api_key restaurant =
     ebind (dict_get restaurant ''photos'' PNone) (\<lambda>photos.
       if \<not> truthy photos then Inr restaurant
       else
         ebind (py_len photos) (\<lambda>n.
           if \<not> 0 < n then Inr restaurant
           else
             ebind (py_index photos 0) (\<lambda>p0.
             ebind (dict_get p0 ''photo_reference'' PNone) (\<lambda>photo_ref.
               if \<not> truthy photo_ref then Inr restaurant
               else dict_set restaurant ''photo_url''
                      (PStr (''https://maps.googleapis.com/maps/api/place/photo?maxwidth=400&photo_reference=''
                             @ py_str (float_repr e) photo_ref @ ''&key='' @ api_key))))))"

fun add_photo_urls :: "env \<Rightarrow> string \<Rightarrow> pyval list \<Rightarrow> exn + pyval list" where
  "add_photo_urls e api_key [] = Inr []"
| "add_photo_urls e api_key (r # rs) =
     ebind (add_photo_url e api_key r) (\<lambda>r'.
     ebind (add_photo_urls e api_key rs) (\<lambda>rs'. Inr (r' # rs')))"

text \<open>
  One round of the loop over the first five places: look up the restaurants near the
  place and store them under \<^verbatim>\<open>nearby_restaurants\<close>. A restaurant list that is not a
  list cannot be updated in place.
\<close>

definition enrich_place :: "env \<Rightarrow> string \<Rightarrow> pyval \<Rightarrow> pyval act" where
  "enrich_place e api_key place =
     sbind (lift (dict_get place ''place_id'' PNone)) (\<lambda>place_id.
       if \<not> truthy place_id then ret place
       else
         sbind (call_api_tool e ''places'' ''search_restaurants_near_place''
                  (PDict [(''place_id'', place_id), (''radius'', PInt 500)])) (\<lambda>restaurants.
         sbind (lift (dict_get restaurants ''restaurants'' PNone)) (\<lambda>rs.
         sbind (if \<not> truthy rs then lift (dict_get restaurants ''restaurants'' (PList []))
                else lift (ebind (py_iter rs) (\<lambda>items.
                       ebind (add_photo_urls e api_key items) (\<lambda>items'.
                         case rs of PList xs \<Rightarrow> Inr (PList items') | _ \<Rightarrow> Inl TypeError))))
               (\<lambda>nearby.
           lift (dict_set place ''nearby_restaurants'' nearby)))))"

fun enrich_places :: "env \<Rightarrow> string \<Rightarrow> pyval list \<Rightarrow> pyval list act" where
  "enrich_places e api_key [] = ret []"
| "enrich_places e api_key (p # ps) =
     sbind (enrich_place e api_key p) (\<lambda>p'.
     sbind (enrich_places e api_key ps) (\<lambda>ps'. ret (p' # ps')))"

text \<open>
  The places step; the result is the value stored under \<^verbatim>\<open>places_info\<close>, if any. The key
  of the places tool is the parameter \<open>api_key\<close>.
\<close>

definition places_step :: "env \<Rightarrow> string \<Rightarrow> pyval \<Rightarrow> pyval option act" where
  "places_step e api_key destination =
     (if map_of (tools e) ''places'' = None then ret None
      else
        sbind (send_command ''system'' ''places_api'' ''SEARCH_ATTRACTIONS''
                 (PDict [(''query'', destination), (''destination'', destination)])) (\<lambda>cmd_places.
        sbind (call_api_tool e ''places'' ''search_places''
                 (PDict [(''query'', PStr (''tourist attractions in ''
                                           @ py_str (float_repr e) destination))])) (\<lambda>places_result.
        sbind (lift (dict_get places_result ''success'' PNone)) (\<lambda>suc.
          if \<not> truthy suc
          then sbind (lift (dict_get places_result ''error'' PNone)) (\<lambda>err.
               sbind (complete_command (cmd_id cmd_places) ''failed'' err) (\<lambda>_. ret None))
          else
            sbind (lift (dict_get places_result ''places'' (PList []))) (\<lambda>places.
              case places of
                PList ps \<Rightarrow>
                  sbind (enrich_places e api_key (take 5 ps)) (\<lambda>first5.
                  sbind (lift (if map_of (case places_result of PDict kvs \<Rightarrow> kvs | _ \<Rightarrow> []) ''places'' = None
                               then Inr places_result
                               else dict_set places_result ''places'' (PList (first5 @ drop 5 ps))))
                        (\<lambda>places_info.
                  sbind (complete_command (cmd_id cmd_places) ''completed''
                           (PStr ''Places and restaurants retrieved'')) (\<lambda>_.
                    ret (Some places_info))))
              | PStr s \<Rightarrow> (if s = [] then
                    sbind (complete_command (cmd_id cmd_places) ''completed''
                             (PStr ''Places and restaurants retrieved'')) (\<lambda>_.
                      ret (Some places_result))
                  else lift (Inl AttributeError))
              | _ \<Rightarrow> lift (Inl TypeError))))))"

text \<open>
  The review step. The hotel list is \<^verbatim>\<open>hotels_data.get('hotels', [])\<close>, which is empty
  when the hotel search stored nothing; the reviewer is called with it in every case.
  \<open>None\<close> is the early return \<^verbatim>\<open>{"error": "Reviewer agent not found"}\<close>.
\<close>

definition review_step :: "env \<Rightarrow> pyval \<Rightarrow> pyval option \<Rightarrow> pyval option act" where
  "review_step e query hotels_result =
     sbind (lift (dict_get (data_or_empty hotels_result) ''hotels'' (PList []))) (\<lambda>hotels.
     sbind (lift (dict_get query ''preferences'' (PDict []))) (\<lambda>prefs.
     sbind (send_command ''planner'' ''reviewer'' ''ANALYZE_HOTELS''
              (PDict [(''hotels'', hotels), (''preferences'', prefs),
                      (''requester'', PStr ''planner'')])) (\<lambda>cmd2.
     sbind (lift (py_len hotels)) (\<lambda>_.
       case map_of (agents e) ''reviewer'' of
         None \<Rightarrow>
           sbind (complete_command (cmd_id cmd2) ''failed''
                    (PStr ''Reviewer agent not found'')) (\<lambda>_. ret None)
       | Some reviewer \<Rightarrow>
           sbind (lift (dict_get query ''preferences'' PNone)) (\<lambda>prefs'.
           sbind (lift (dict_get query ''destination'' PNone)) (\<lambda>dest.
           (let reviewer_request = PDict
                  [(''hotels'', hotels), (''preferences'', prefs'), (''destination'', dest)]
            in sbind (record_call (AgentProcess ''reviewer'' reviewer_request)) (\<lambda>_.
               sbind (lift (process reviewer reviewer_request)) (\<lambda>resp.
               sbind (lift (dict_get resp ''analysis'' (PList []))) (\<lambda>analysis.
               sbind (lift (dict_get resp ''recommendations'' (PList []))) (\<lambda>recs.
               sbind (lift (dict_get resp ''recommendations'' (PList [PDict []]))) (\<lambda>recs1.
               sbind (lift (py_index recs1 0)) (\<lambda>first.
               sbind (lift (dict_get first ''hotel'' (PStr ''N/A''))) (\<lambda>top_pick.
               sbind (lift (py_len recs)) (\<lambda>n.
               sbind (complete_command (cmd_id cmd2) ''completed''
                        (count_text n '' hotels analyzed'')) (\<lambda>_.
                 ret (Some (PDict [(''analysis'', analysis), (''recommendations'', recs),
                                   (''top_pick'', top_pick)]))))))))))))))))))"

text \<open>\<^verbatim>\<open>[r['hotel'] for r in recommendations]\<close>.\<close>

fun hotel_names :: "pyval list \<Rightarrow> exn + pyval list" where
  "hotel_names [] = Inr []"
| "hotel_names (r # rs) =
     ebind (dict_item r ''hotel'') (\<lambda>h. ebind (hotel_names rs) (\<lambda>hs. Inr (h # hs)))"

text \<open>
  The refinement step: one call of the planner's \<^verbatim>\<open>generate_response\<close>, whose answer is
  parsed. A \<^verbatim>\<open>JSONDecodeError\<close> is caught: the draft is kept and the command is marked
  \<^verbatim>\<open>completed_with_warning\<close>. Any other exception of the parser propagates.
\<close>

definition refinement_step ::
  "env \<Rightarrow> agent \<Rightarrow> pyval \<Rightarrow> pyval \<Rightarrow> pyval option \<Rightarrow> pyval option \<Rightarrow> pyval option
     \<Rightarrow> pyval option \<Rightarrow> pyval act" where
  "refinement_step e planner initial_itinerary hotel_analysis weather places hotels flights =
     sbind (lift (dict_get hotel_analysis ''top_pick'' (PStr ''N/A''))) (\<lambda>top_pick.
     sbind (lift (dict_get hotel_analysis ''recommendations'' (PList []))) (\<lambda>recs.
     sbind (lift (py_len recs)) (\<lambda>n.
     sbind (lift (ebind (py_iter recs) hotel_names)) (\<lambda>names.
     sbind (send_command ''reviewer'' ''planner'' ''REQUEST_REFINEMENT''
              (PDict [(''analysis_summary'',
                         PDict [(''top_pick'', top_pick), (''total_analyzed'', PInt (int n)),
                                (''recommendations'', PList names)]),
                      (''full_analysis'', hotel_analysis),
                      (''weather_info'', value_or_none weather),
                      (''places_info'', value_or_none places)])) (\<lambda>cmd3.
     sbind (lift (create_refinement_prompt e initial_itinerary hotel_analysis
                    (value_or_none weather) (value_or_none places)
                    (data_or_empty hotels) (data_or_empty flights))) (\<lambda>prompt.
     sbind (record_call (AgentGenerate ''planner'' prompt)) (\<lambda>_.
     sbind (lift (generate_response planner prompt)) (\<lambda>final_response.
       case json_loads e final_response of
         Inr final_itinerary \<Rightarrow>
           sbind (complete_command (cmd_id cmd3) ''completed'' (PStr ''Itinerary refined'')) (\<lambda>_.
             ret final_itinerary)
       | Inl JSONDecodeError \<Rightarrow>
           sbind (complete_command (cmd_id cmd3) ''completed_with_warning''
                    (PStr ''Used initial itinerary'')) (\<lambda>_.
             ret initial_itinerary)
       | Inl ex \<Rightarrow> lift (Inl ex)))))))))"

subsection \<open>The whole request\<close>

text \<open>
  The value returned by \<^verbatim>\<open>process_travel_request\<close>: either the early return
  \<^verbatim>\<open>{"error": ...}\<close> or the full response. The list under \<^verbatim>\<open>mcp_commands\<close> of the
  collaboration log is the server's \<^verbatim>\<open>command_history\<close> list itself; the record holds
  its value at the time of the return.
\<close>

record response =
  resp_query :: pyval
  style_analysis_of :: pyval
  initial_itinerary :: pyval
  hotel_analysis :: pyval
  final_itinerary :: pyval
  weather_info :: pyval
  places_info :: pyval
  hotel_info :: pyval
  flight_info :: pyval
  collaboration_log :: collaboration_log

datatype outcome = Failed string | Done response

definition log_entry :: "string \<Rightarrow> pyval option \<Rightarrow> (string \<times> pyval) list" where
  "log_entry k r = (case r of None \<Rightarrow> [] | Some v \<Rightarrow> [(k, v)])"

definition finish ::
  "pyval \<Rightarrow> pyval \<Rightarrow> pyval \<Rightarrow> pyval \<Rightarrow> pyval \<Rightarrow> pyval option \<Rightarrow> pyval option
     \<Rightarrow> pyval option \<Rightarrow> pyval option \<Rightarrow> outcome act" where
  "finish query style_analysis initial hotel_an final weather places hotels flights s =
     (let log = \<lparr> log_query = query, mcp_commands = command_history s,
                   log_entries = log_entry ''weather_info'' weather
                     @ log_entry ''flights_data'' flights
                     @ log_entry ''hotels_data'' hotels
                     @ [(''style_analysis'', style_analysis)]
                     @ log_entry ''places_info'' places \<rparr>
      in (Inr (Done \<lparr> resp_query = query, style_analysis_of = style_analysis,
                       initial_itinerary = initial, hotel_analysis = hotel_an,
                       final_itinerary = final, weather_info = value_or_none weather,
                       places_info = value_or_none places,
                       hotel_info = data_or_empty hotels,
                       flight_info = data_or_empty flights,
                       collaboration_log = log \<rparr>),
          s\<lparr>collaboration_history := collaboration_history s @ [log]\<rparr>))"

definition process_travel_request :: "env \<Rightarrow> pyval \<Rightarrow> outcome act" where
  "process_travel_request e query =
     sbind (lift (dict_get query ''destination'' (PStr []))) (\<lambda>destination.
     sbind (lift (city_only destination)) (\<lambda>city.
     sbind (weather_step e query destination city) (\<lambda>weather.
     sbind (flight_step e query city) (\<lambda>flights.
     sbind (hotel_step e query city) (\<lambda>hotels.
     sbind (style_step e query) (\<lambda>style_analysis.
     sbind (draft_step e query weather flights hotels style_analysis) (\<lambda>draft.
       case draft of
         None \<Rightarrow> ret (Failed ''Planner agent not found'')
       | Some (planner, initial) \<Rightarrow>
           sbind (places_step e (places_api_key e) destination) (\<lambda>places.
           sbind (review_step e query hotels) (\<lambda>review.
             case review of
               None \<Rightarrow> ret (Failed ''Reviewer agent not found'')
             | Some hotel_an \<Rightarrow>
                 sbind (refinement_step e planner initial hotel_an weather places hotels flights)
                   (\<lambda>final.
                   finish query style_analysis initial hotel_an final weather places hotels
                     flights))))))))))"

subsection \<open>The reviewer\<close>

text \<open>\<^verbatim>\<open>all_reviews\<close>: the reviews found for each hotel, in order.\<close>

fun collect_reviews ::
  "(rat \<Rightarrow> string) \<Rightarrow> (string \<Rightarrow> exn + pyval list) \<Rightarrow> pyval \<Rightarrow> pyval list \<Rightarrow> exn + pyval list" where
  "collect_reviews fr search_reviews destination [] = Inr []"
| "collect_reviews fr search_reviews destination (hotel # hotels) =
     ebind (search_reviews (py_str fr hotel @ '' '' @ py_str fr destination)) (\<lambda>reviews.
     ebind (collect_reviews fr search_reviews destination hotels) (\<lambda>more.
       Inr (reviews @ more)))"

text \<open>
  \<^verbatim>\<open>ReviewerAgent.process\<close>. The review store and the analysis of the found reviews by
  the language model (steps 2 and 3 of the method) are parameters.
\<close>

definition no_hotels :: pyval where
  "no_hotels = PDict [(''status'', PStr ''error''), (''message'', PStr ''No hotels to analyze'')]"

definition reviewer_process ::
  "(rat \<Rightarrow> string) \<Rightarrow> (string \<Rightarrow> exn + pyval list)
     \<Rightarrow> (pyval \<Rightarrow> pyval list \<Rightarrow> pyval \<Rightarrow> exn + pyval) \<Rightarrow> pyval \<Rightarrow> exn + pyval" where
  "reviewer_process fr search_reviews analyse request =
     ebind (dict_get request ''hotels'' (PList [])) (\<lambda>hotels.
     ebind (dict_get request ''preferences'' (PDict [])) (\<lambda>preferences.
     ebind (dict_get request ''destination'' (PStr [])) (\<lambda>destination.
       if \<not> truthy hotels then Inr no_hotels
       else
         ebind (py_iter hotels) (\<lambda>hs.
         ebind (collect_reviews fr search_reviews destination hs) (\<lambda>all_reviews.
           if all_reviews = []
           then Inr (PDict [(''status'', PStr ''error''), (''message'', PStr ''No reviews found'')])
           else analyse hotels all_reviews preferences)))))"

subsection \<open>Invariants of the command history\<close>

text \<open>The ids of the history are 1, 2, ... in order.\<close>

definition ids_in_order :: "server \<Rightarrow> bool" where
  "ids_in_order s = (map cmd_id (command_history s) = [1..<Suc (length (command_history s))])"

text \<open>The server still holds the commands \<open>h0\<close>, unchanged, at the front of its history.\<close>

definition extends :: "command list \<Rightarrow> server \<Rightarrow> bool" where
  "extends h0 s = (ids_in_order s \<and> prefix h0 (command_history s))"

definition keeps :: "command list \<Rightarrow> 'a act \<Rightarrow> bool" where
  "keeps h0 m = (\<forall>s. extends h0 s \<longrightarrow> extends h0 (snd (m s)))"

definition logs_all :: "outcome act \<Rightarrow> bool" where
  "logs_all m =
     (\<forall>s r. fst (m s) = Inr (Done r)
        \<longrightarrow> mcp_commands (collaboration_log r) = command_history (snd (m s)))"

text \<open>
  Two forms of statement about a method of the server: what every returned value
  satisfies, and what holds of the returned value and the server afterwards when the ids
  were in order before.
\<close>

definition yields :: "'a act \<Rightarrow> ('a \<Rightarrow> bool) \<Rightarrow> bool" where
  "yields m Q = (\<forall>s a s'. m s = (Inr a, s') \<longrightarrow> Q a)"

definition ensures :: "'a act \<Rightarrow> ('a \<Rightarrow> server \<Rightarrow> bool) \<Rightarrow> bool" where
  "ensures m Q =
     (\<forall>s a s'. ids_in_order s \<longrightarrow> m s = (Inr a, s') \<longrightarrow> ids_in_order s' \<and> Q a s')"

text \<open>
  The outcome of the refinement step as it shows in a response \<open>r\<close> and in the server
  afterwards: the last call was the planner's \<^verbatim>\<open>generate_response\<close>, the last command
  is the refinement command, and the parse of the answer decides the final itinerary and
  the status.
\<close>

definition refined :: "env \<Rightarrow> response \<Rightarrow> server \<Rightarrow> bool" where
  "refined e r s' =
     (\<exists>planner prompt answer.
        map_of (agents e) ''planner'' = Some planner
      \<and> calls s' \<noteq> [] \<and> last (calls s') = AgentGenerate ''planner'' prompt
      \<and> generate_response planner prompt = Inr answer
      \<and> command_history s' \<noteq> []
      \<and> cmd_name (last (command_history s')) = ''REQUEST_REFINEMENT''
      \<and> (case json_loads e answer of
           Inr parsed \<Rightarrow>
             final_itinerary r = parsed
           \<and> cmd_status (last (command_history s')) = ''completed''
         | Inl ex \<Rightarrow>
             ex = JSONDecodeError
           \<and> final_itinerary r = initial_itinerary r
           \<and> cmd_status (last (command_history s')) = ''completed_with_warning''))"

subsection \<open>Forecast entries\<close>


section \<open>Reconciliation in \<^verbatim>\<open>plan\<close>\<close>

text \<open>
  The part of the route \<^verbatim>\<open>plan\<close> that repairs the final plan with the raw search
  results: restaurant names, selected flight, selected hotel and the accommodation of
  each day, the flights of the first and the last day, and the daily costs (before it,
  the route only adds photo links to attractions and meals). The plan is the dictionary
  the orchestrator returned as final itinerary; a step that changes it in place is a
  function from the plan to the changed plan.
\<close>

subsection \<open>Korean texts\<close>

text \<open>The Korean texts of this part, as UTF-8 bytes, with their meaning.\<close>









text \<open>There is no information on the flight out.\<close>

definition no_outbound_text :: string where
  "no_outbound_text =
     [CHR 0xEC, CHR 0xB6, CHR 0x9C, CHR 0xEA, CHR 0xB5, CHR 0xAD, CHR 0xED, CHR 0x8E, CHR 0xB8, CHR 0x20, CHR 0xEC, CHR 0xA0, CHR 0x95, CHR 0xEB, CHR 0xB3, CHR 0xB4, CHR 0xEA, CHR 0xB0, CHR 0x80, CHR 0x20, CHR 0xEC, CHR 0x97, CHR 0x86, CHR 0xEC, CHR 0x8A, CHR 0xB5, CHR 0xEB, CHR 0x8B, CHR 0x88, CHR 0xEB, CHR 0x8B, CHR 0xA4, CHR 0x2E]"






subsection \<open>Restaurant names\<close>















subsection \<open>The selected flight\<close>




text \<open>
  \<^verbatim>\<open>flights_data.get('success') and flights_data.get('flights')\<close>, and the same test on
  the hotels.
\<close>

definition found :: "pyval \<Rightarrow> string \<Rightarrow> exn + bool" where
  "found data key =
     ebind (dict_get data ''success'' PNone) (\<lambda>suc.
       if \<not> truthy suc then Inr False
       else ebind (dict_get data key PNone) (\<lambda>items. Inr (truthy items)))"







subsection \<open>The selected hotel and the accommodation of each day\<close>


















subsection \<open>The flights of the first and the last day\<close>














subsection \<open>The whole reconciliation\<close>




subsection \<open>The last day\<close>


section \<open>Concrete data used in the examples\<close>











text \<open>The smallest request with two people and a budget of 2,000,000.\<close>

definition small_query :: pyval where
  "small_query = PDict [(''people'', PInt 2), (''budget'', PInt 2000000)]"

text \<open>The lower-cased printed form of that request: \<^verbatim>\<open>{'people': 2, 'budget': 2000000}\<close>.\<close>

definition small_text :: string where
  "small_text = ''{'' @ [CHR 0x27] @ ''people'' @ [CHR 0x27] @ '': 2, '' @ [CHR 0x27] @ ''budget''
     @ [CHR 0x27] @ '': 2000000}''"

text \<open>
  A server on which the hotel search fails: the only tool is a hotel tool whose search
  reports a failure; the planner answers with a one-day draft and its refinement answer
  is not JSON; the reviewer is the reviewer of the source over an empty review store.
\<close>

definition draft_example :: pyval where
  "draft_example =
     PDict [(''destination'', PStr ''Tokyo''), (''days'', PInt 1),
            (''itinerary'', PList [PDict [(''day'', PInt 1)]])]"

definition example_planner :: agent where
  "example_planner =
     \<lparr> process = (\<lambda>request. Inr (PDict [(''status'', PStr ''success''),
                                          (''itinerary'', draft_example)])),
       generate_response = (\<lambda>prompt. Inr (PStr ''Error: no answer'')) \<rparr>"

definition example_reviewer :: agent where
  "example_reviewer =
     \<lparr> process = reviewer_process (\<lambda>r. []) (\<lambda>text. Inr []) (\<lambda>hotels reviews prefs. Inr (PDict [])),
       generate_response = (\<lambda>prompt. Inr (PStr [])) \<rparr>"

definition failing_hotel_tool :: "string \<Rightarrow> (pyval \<Rightarrow> exn + pyval) option" where
  "failing_hotel_tool method =
     (if method = ''search_hotels''
      then Some (\<lambda>kwargs. Inr (PDict [(''success'', PBool False), (''error'', PStr ''no offers'')]))
      else None)"

text \<open>The parser of the example accepts the empty object only.\<close>

definition example_loads :: "pyval \<Rightarrow> exn + pyval" where
  "example_loads v =
     (case v of
        PStr s \<Rightarrow> (if s = ''{}'' then Inr (PDict []) else Inl JSONDecodeError)
      | _ \<Rightarrow> Inl TypeError)"

definition example_env :: env where
  "example_env =
     \<lparr> tools = [(''hotel'', failing_hotel_tool)],
       agents = [(''planner'', example_planner), (''reviewer'', example_reviewer)],
       create_refinement_prompt = (\<lambda>initial analysis weather places hotels flights. Inr ''refine''),
       json_loads = example_loads,
       float_repr = (\<lambda>r. []),
       places_api_key = [] \<rparr>"

definition example_query :: pyval where
  "example_query =
     PDict [(''origin'', PStr ''Seoul''), (''destination'', PStr ''Tokyo''),
            (''days'', PInt 1), (''people'', PInt 2)]"

text \<open>What one request leaves behind on a new server, and what it returns.\<close>

definition example_history :: "command list" where
  "example_history =
     [\<lparr> cmd_id = 1, cmd_from = ''system'', cmd_to = ''hotel_api'',
         cmd_name = ''SEARCH_HOTELS'',
         cmd_params = PDict [(''city'', PStr ''Tokyo''), (''check_in_date'', PNone),
                             (''check_out_date'', PNone), (''adults'', PInt 2)],
         cmd_status = ''pending'', cmd_result = PNone \<rparr>,
      \<lparr> cmd_id = 2, cmd_from = ''system'', cmd_to = ''stylist'',
         cmd_name = ''ANALYZE_TRAVEL_STYLE'',
         cmd_params = PDict [(''query'', example_query)],
         cmd_status = ''failed'', cmd_result = PStr ''Stylist agent not found'' \<rparr>,
      \<lparr> cmd_id = 3, cmd_from = ''user'', cmd_to = ''planner'',
         cmd_name = ''CREATE_ITINERARY'',
         cmd_params = PDict [(''origin'', PStr ''Seoul''), (''destination'', PStr ''Tokyo''),
                             (''days'', PInt 1), (''people'', PInt 2), (''budget'', PNone),
                             (''weather_info'', PNone)],
         cmd_status = ''completed'', cmd_result = PStr ''Initial itinerary created'' \<rparr>,
      \<lparr> cmd_id = 4, cmd_from = ''planner'', cmd_to = ''reviewer'',
         cmd_name = ''ANALYZE_HOTELS'',
         cmd_params = PDict [(''hotels'', PList []), (''preferences'', PDict []),
                             (''requester'', PStr ''planner'')],
         cmd_status = ''completed'', cmd_result = PStr ''0 hotels analyzed'' \<rparr>,
      \<lparr> cmd_id = 5, cmd_from = ''reviewer'', cmd_to = ''planner'',
         cmd_name = ''REQUEST_REFINEMENT'',
         cmd_params =
           PDict [(''analysis_summary'',
                   PDict [(''top_pick'', PStr ''N/A''), (''total_analyzed'', PInt 0),
                          (''recommendations'', PList [])]),
                  (''full_analysis'',
                   PDict [(''analysis'', PList []), (''recommendations'', PList []),
                          (''top_pick'', PStr ''N/A'')]),
                  (''weather_info'', PNone), (''places_info'', PNone)],
         cmd_status = ''completed_with_warning'',
         cmd_result = PStr ''Used initial itinerary'' \<rparr>]"

definition example_calls :: "event list" where
  "example_calls =
     [ToolCall ''hotel'' ''search_hotels''
        (PDict [(''city'', PStr ''Tokyo''), (''check_in_date'', PNone),
                (''check_out_date'', PNone), (''adults'', PInt 2), (''max_results'', PInt 5)]),
      AgentProcess ''planner''
        (PDict [(''query'', example_query), (''style_info'', PDict []), (''context'', PNone),
                (''hotel_info'', PDict []), (''flight_info'', PDict []),
                (''places_info'', PDict [])]),
      AgentProcess ''reviewer''
        (PDict [(''hotels'', PList []), (''preferences'', PNone),
                (''destination'', PStr ''Tokyo'')]),
      AgentGenerate ''planner'' ''refine'']"

definition example_log :: collaboration_log where
  "example_log =
     \<lparr> log_query = example_query, mcp_commands = example_history,
       log_entries = [(''style_analysis'', PDict [])] \<rparr>"

definition example_response :: response where
  "example_response =
     \<lparr> resp_query = example_query, style_analysis_of = PDict [],
       initial_itinerary = draft_example,
       hotel_analysis = PDict [(''analysis'', PList []), (''recommendations'', PList []),
                               (''top_pick'', PStr ''N/A'')],
       final_itinerary = draft_example,
       weather_info = PNone, places_info = PNone, hotel_info = PDict [],
       flight_info = PDict [], collaboration_log = example_log \<rparr>"

definition example_server :: server where
  "example_server =
     \<lparr> command_history = example_history, collaboration_history = [example_log],
       calls = example_calls \<rparr>"

text \<open>
  A weather tool whose plain forecast covers three days, and a first forecast that has
  the second of them only.
\<close>

definition first_forecast :: "pyval list" where
  "first_forecast = [PDict [(''date'', PStr ''2025-03-02''), (''temp_avg'', PInt 9)]]"

definition plain_forecast :: "pyval list" where
  "plain_forecast =
     [PDict [(''date'', PStr ''2025-03-01''), (''temp_avg'', PInt 7)],
      PDict [(''date'', PStr ''2025-03-02''), (''temp_avg'', PInt 11)],
      PDict [(''date'', PStr ''2025-03-03''), (''temp_avg'', PInt 12)]]"




















section \<open>Properties\<close>

subsection \<open>Dictionaries\<close>




subsection \<open>Truncation\<close>


lemma py_int_of_int: "py_int (of_int i) = i"
  by (simp add: py_int_def)


subsection \<open>The daily cost pass\<close>






subsection \<open>The budget summary\<close>








subsection \<open>The style classifier\<close>

lemma digits_2: "digits 2 = ''2''"
  by (simp add: digits.simps digit_char_def)

lemma digits_2000000: "digits 2000000 = ''2000000''"
  by (simp add: digits.simps [of 2000000] digits.simps [of 200000] digits.simps [of 20000]
      digits.simps [of 2000] digits.simps [of 200] digits.simps [of 20] digits.simps [of 2]
      digit_char_def)

lemma small_query_text: "py_lower (py_str fr small_query) = small_text"
  by (simp add: small_text_def small_query_def py_str_def py_lower_def repr_str_def
      repr_char_def lower_char_def str_of_int_def digits_2 digits_2000000 Let_def)

lemma small_family:
  "filter (\<lambda>keyword. str_contains keyword small_text)
     [''family'',
      ''kids'',
      ''children'',
      [CHR 0xEA, CHR 0xB0, CHR 0x80, CHR 0xEC, CHR 0xA1, CHR 0xB1],
      [CHR 0xEC, CHR 0x95, CHR 0x84, CHR 0xEC, CHR 0x9D, CHR 0xB4],
      [CHR 0xEC, CHR 0x96, CHR 0xB4, CHR 0xEB, CHR 0xA6, CHR 0xB0, CHR 0xEC, CHR 0x9D, CHR 0xB4]] = []"
  by (simp add: small_text_def)

lemma small_business:
  "filter (\<lambda>keyword. str_contains keyword small_text)
     [''business'',
      ''corporate'',
      ''meeting'',
      ''conference'',
      [CHR 0xEB, CHR 0xB9, CHR 0x84, CHR 0xEC, CHR 0xA6, CHR 0x88, CHR 0xEB, CHR 0x8B, CHR 0x88, CHR 0xEC, CHR 0x8A, CHR 0xA4],
      [CHR 0xEC, CHR 0x97, CHR 0x85, CHR 0xEB, CHR 0xAC, CHR 0xB4],
      [CHR 0xED, CHR 0x9A, CHR 0x8C, CHR 0xEC, CHR 0x9D, CHR 0x98]] = []"
  by (simp add: small_text_def)

lemma small_backpacker:
  "filter (\<lambda>keyword. str_contains keyword small_text)
     [''backpacker'',
      ''budget'',
      ''hostel'',
      ''cheap'',
      [CHR 0xEB, CHR 0xB0, CHR 0xB1, CHR 0xED, CHR 0x8C, CHR 0xA8, CHR 0xEC, CHR 0xBB, CHR 0xA4],
      [CHR 0xEB, CHR 0xB0, CHR 0xB0, CHR 0xEB, CHR 0x82, CHR 0xAD, CHR 0xEC, CHR 0x97, CHR 0xAC, CHR 0xED, CHR 0x96, CHR 0x89],
      [CHR 0xEC, CHR 0xA0, CHR 0x80, CHR 0xEB, CHR 0xA0, CHR 0xB4]] = [''budget'']"
  by (simp add: small_text_def)

lemma small_cultural:
  "filter (\<lambda>keyword. str_contains keyword small_text)
     [''culture'',
      ''history'',
      ''museum'',
      ''heritage'',
      [CHR 0xEB, CHR 0xAC, CHR 0xB8, CHR 0xED, CHR 0x99, CHR 0x94],
      [CHR 0xEC, CHR 0x97, CHR 0xAD, CHR 0xEC, CHR 0x82, CHR 0xAC],
      [CHR 0xEB, CHR 0xB0, CHR 0x95, CHR 0xEB, CHR 0xAC, CHR 0xBC, CHR 0xEA, CHR 0xB4, CHR 0x80],
      [CHR 0xEC, CHR 0x9C, CHR 0xA0, CHR 0xEC, CHR 0x82, CHR 0xB0]] = []"
  by (simp add: small_text_def)

lemma small_luxury:
  "filter (\<lambda>keyword. str_contains keyword small_text)
     [''luxury'',
      ''premium'',
      ''high-end'',
      ''exclusive'',
      [CHR 0xEB, CHR 0x9F, CHR 0xAD, CHR 0xEC, CHR 0x85, CHR 0x94, CHR 0xEB, CHR 0xA6, CHR 0xAC],
      [CHR 0xED, CHR 0x94, CHR 0x84, CHR 0xEB, CHR 0xA6, CHR 0xAC, CHR 0xEB, CHR 0xAF, CHR 0xB8, CHR 0xEC, CHR 0x97, CHR 0x84],
      [CHR 0xEA, CHR 0xB3, CHR 0xA0, CHR 0xEA, CHR 0xB8, CHR 0x89]] = []"
  by (simp add: small_text_def)

lemma small_adventure:
  "filter (\<lambda>keyword. str_contains keyword small_text)
     [''adventure'',
      ''outdoor'',
      ''extreme'',
      ''hiking'',
      [CHR 0xEB, CHR 0xAA, CHR 0xA8, CHR 0xED, CHR 0x97, CHR 0x98],
      [CHR 0xEC, CHR 0x95, CHR 0x84, CHR 0xEC, CHR 0x9B, CHR 0x83, CHR 0xEB, CHR 0x8F, CHR 0x84, CHR 0xEC, CHR 0x96, CHR 0xB4],
      [CHR 0xEB, CHR 0x93, CHR 0xB1, CHR 0xEC, CHR 0x82, CHR 0xB0],
      [CHR 0xEC, CHR 0x9D, CHR 0xB5, CHR 0xEC, CHR 0x8A, CHR 0xA4, CHR 0xED, CHR 0x8A, CHR 0xB8, CHR 0xEB, CHR 0xA6, CHR 0xBC]] = []"
  by (simp add: small_text_def)

lemma small_scores:
  "map (\<lambda>p. (fst p, score (snd p), matched_keywords (snd p))) (style_scores small_text) =
     [(''family'', 0, []), (''business'', 0, []), (''backpacker'', 1, [''budget'']),
      (''cultural'', 0, []), (''luxury'', 0, []), (''adventure'', 0, [])]"
  by (simp add: style_scores_def travel_styles_def score_style_def Let_def
      small_family small_business small_backpacker small_cultural small_luxury small_adventure
      del: filter.simps)

text \<open>
  C6 at the request the claim names (two people, budget 2,000,000, no style words). The
  printed request contains its own key \<^verbatim>\<open>'budget'\<close>, which is a keyword of the
  backpacker style, so the best score is 1 and the fallback on party size and budget is
  not reached: the classifier answers backpacker with the matched keyword
  \<^verbatim>\<open>budget\<close>, where the claim expects cultural with no matched keyword.
\<close>

theorem budget_key_makes_backpacker:
  "\<exists>a. analyze_travel_style fr small_query = Inr a
       \<and> primary_style a = ''backpacker'' \<and> confidence a = 1
       \<and> analysis_matched_keywords a = [''budget'']"
proof -
  obtain f b k c l a where scores: "style_scores small_text = [f, b, k, c, l, a]"
    and k: "fst k = ''backpacker''" "score (snd k) = 1" "matched_keywords (snd k) = [''budget'']"
    and z: "score (snd f) = 0" "score (snd b) = 0" "score (snd c) = 0" "score (snd l) = 0"
           "score (snd a) = 0"
    using small_scores by (auto simp: map_eq_Cons_conv)
  have best: "max_by_score f [b, k, c, l, a] = k"
    using k z by simp
  show ?thesis
    by (simp add: analyze_travel_style_def small_query_text scores best k analysis_of_def
        del: max_by_score.simps)
qed

subsection \<open>The command history\<close>

lemma keeps_ret: "keeps h0 (ret a)"
  by (simp add: keeps_def ret_def)

lemma keeps_lift: "keeps h0 (lift r)"
  by (simp add: keeps_def lift_def)

lemma keeps_record_call: "keeps h0 (record_call ev)"
  by (simp add: keeps_def record_call_def extends_def ids_in_order_def)

lemma keeps_bind:
  assumes "keeps h0 m" and "\<And>a. keeps h0 (f a)"
  shows "keeps h0 (sbind m f)"
proof -
  have "extends h0 (snd (sbind m f s))" if s: "extends h0 s" for s
  proof (cases "m s")
    case (Pair r s')
    from assms(1) s Pair have s': "extends h0 s'"
      by (auto simp add: keeps_def dest!: spec [of _ s])
    show ?thesis
    proof (cases r)
      case (Inl ex)
      with Pair s' show ?thesis by (simp add: sbind_def)
    next
      case (Inr a)
      from assms(2) [of a] s' have "extends h0 (snd (f a s'))"
        by (simp add: keeps_def)
      with Pair Inr show ?thesis by (simp add: sbind_def)
    qed
  qed
  then show ?thesis by (simp add: keeps_def)
qed

lemma keeps_send:
  assumes "\<And>c. length h0 < cmd_id c \<Longrightarrow> keeps h0 (f c)"
  shows "keeps h0 (sbind (send_command a b n p) f)"
proof -
  have "extends h0 (snd (sbind (send_command a b n p) f s))" if s: "extends h0 s" for s
  proof -
    obtain c s' where cs: "send_command a b n p s = (Inr c, s')"
      and c: "cmd_id c = Suc (length (command_history s))"
      and s': "command_history s' = command_history s @ [c]"
      by (simp add: send_command_def Let_def)
    from s have len: "length h0 \<le> length (command_history s)"
      by (auto simp add: extends_def prefix_def)
    from s c s' have "extends h0 s'"
      by (auto simp add: extends_def ids_in_order_def prefix_def)
    moreover from len c have "length h0 < cmd_id c" by simp
    ultimately have "extends h0 (snd (f c s'))"
      using assms [of c] by (simp add: keeps_def)
    with cs show ?thesis by (simp add: sbind_def)
  qed
  then show ?thesis by (simp add: keeps_def)
qed

lemma map_id_mark_first: "map cmd_id (mark_first cid st r h) = map cmd_id h"
  by (induction h) simp_all

lemma length_mark_first: "length (mark_first cid st r h) = length h"
  by (induction h) simp_all

lemma mark_first_append:
  "cid \<notin> cmd_id ` set h0 \<Longrightarrow> mark_first cid st r (h0 @ new) = h0 @ mark_first cid st r new"
  by (induction h0) auto

lemma keeps_complete:
  assumes "length h0 < cid"
  shows "keeps h0 (complete_command cid st r)"
proof -
  have "extends h0 (snd (complete_command cid st r s))" if s: "extends h0 s" for s
  proof -
    from s obtain new where new: "command_history s = h0 @ new"
      by (auto simp add: extends_def prefix_def)
    from s new have "map cmd_id h0 @ map cmd_id new = [1..<Suc (length h0 + length new)]"
      by (simp add: extends_def ids_in_order_def del: upt_Suc)
    then have "map cmd_id h0 = take (length h0) [1..<Suc (length h0 + length new)]"
      by (metis append_eq_conv_conj length_map)
    moreover have "take (length h0) [1..<Suc (length h0 + length new)] = [1..<1 + length h0]"
      by (rule take_upt) simp
    ultimately have ids: "map cmd_id h0 = [1..<1 + length h0]"
      by (simp del: upt_Suc)
    have "cid \<notin> set (map cmd_id h0)"
      unfolding ids using assms by (simp del: upt_Suc)
    then have "cid \<notin> cmd_id ` set h0" by simp
    then have "mark_first cid st r (h0 @ new) = h0 @ mark_first cid st r new"
      by (rule mark_first_append)
    with s new show ?thesis
      by (simp add: complete_command_def extends_def ids_in_order_def map_id_mark_first
            length_mark_first)
  qed
  then show ?thesis by (simp add: keeps_def)
qed

lemma keeps_if:
  "(c \<Longrightarrow> keeps h0 a) \<Longrightarrow> (\<not> c \<Longrightarrow> keeps h0 b) \<Longrightarrow> keeps h0 (if c then a else b)"
  by simp

lemma keeps_case_option:
  "keeps h0 a \<Longrightarrow> (\<And>y. keeps h0 (f y)) \<Longrightarrow> keeps h0 (case x of None \<Rightarrow> a | Some y \<Rightarrow> f y)"
  by (cases x) simp_all

lemma keeps_case_prod:
  "(\<And>a b. keeps h0 (f a b)) \<Longrightarrow> keeps h0 (case p of (a, b) \<Rightarrow> f a b)"
  by (cases p) simp

lemma keeps_call_api_tool: "keeps h0 (call_api_tool e t m k)"
  unfolding call_api_tool_def
  by (auto intro!: keeps_bind keeps_ret keeps_record_call
        split: option.split sum.split exn.split)

lemmas keeps_rules =
  keeps_send keeps_bind keeps_ret keeps_lift keeps_record_call keeps_complete
  keeps_call_api_tool keeps_if keeps_case_option keeps_case_prod

lemma keeps_supplement_forecast: "keeps h0 (supplement_forecast e city d fl)"
  unfolding supplement_forecast_def
  by (rule keeps_rules | assumption)+

lemma keeps_weather_step: "keeps h0 (weather_step e q d c)"
  unfolding weather_step_def
  by (rule keeps_rules keeps_supplement_forecast | assumption)+

lemma keeps_flight_step: "keeps h0 (flight_step e q c)"
  unfolding flight_step_def
  by (rule keeps_rules | assumption)+

lemma keeps_hotel_step: "keeps h0 (hotel_step e q c)"
  unfolding hotel_step_def
  by (rule keeps_rules | assumption)+

lemma keeps_style_step: "keeps h0 (style_step e q)"
  unfolding style_step_def
  by (rule keeps_rules | assumption)+

lemma keeps_draft_step: "keeps h0 (draft_step e q w f h st)"
  unfolding draft_step_def Let_def
  by (rule keeps_rules | assumption)+

lemma keeps_enrich_place: "keeps h0 (enrich_place e k p)"
  unfolding enrich_place_def
  by (rule keeps_rules | assumption)+

lemma keeps_enrich_places: "keeps h0 (enrich_places e k ps)"
  by (induction ps) (auto intro!: keeps_bind keeps_ret keeps_enrich_place)

lemma keeps_places_step: "keeps h0 (places_step e k d)"
  unfolding places_step_def
  by (rule keeps_rules keeps_enrich_places | assumption | simp split: pyval.split, intro conjI allI impI)+

lemma keeps_review_step: "keeps h0 (review_step e q h)"
  unfolding review_step_def Let_def
  by (rule keeps_rules | assumption)+

lemma keeps_refinement_step: "keeps h0 (refinement_step e p i ha w pl h f)"
  unfolding refinement_step_def
  by (rule keeps_rules | assumption | simp split: sum.split exn.split, intro conjI allI impI)+

lemma keeps_finish: "keeps h0 (finish q st i ha f w p h fl)"
  by (simp add: keeps_def finish_def Let_def extends_def ids_in_order_def)

lemma keeps_process_travel_request: "keeps h0 (process_travel_request e q)"
  unfolding process_travel_request_def
  by (rule keeps_rules keeps_weather_step keeps_flight_step keeps_hotel_step keeps_style_step
        keeps_draft_step keeps_places_step keeps_review_step keeps_refinement_step keeps_finish
      | assumption)+

lemma logs_all_bind:
  assumes "\<And>a. logs_all (f a)"
  shows "logs_all (sbind m f)"
proof -
  have "mcp_commands (collaboration_log r) = command_history (snd (sbind m f s))"
    if "fst (sbind m f s) = Inr (Done r)" for s r
  proof (cases "m s")
    case (Pair x s')
    show ?thesis
    proof (cases x)
      case (Inl ex)
      with Pair that show ?thesis by (simp add: sbind_def)
    next
      case (Inr a)
      with Pair that assms [of a] show ?thesis by (simp add: sbind_def logs_all_def)
    qed
  qed
  then show ?thesis by (simp add: logs_all_def)
qed

lemma logs_all_failed: "logs_all (ret (Failed msg))"
  by (simp add: logs_all_def ret_def)

lemma logs_all_finish: "logs_all (finish q st i ha f w p h fl)"
  by (simp add: logs_all_def finish_def Let_def)

lemma logs_all_case_option:
  "logs_all a \<Longrightarrow> (\<And>y. logs_all (f y)) \<Longrightarrow> logs_all (case x of None \<Rightarrow> a | Some y \<Rightarrow> f y)"
  by (cases x) simp_all

lemma logs_all_case_prod:
  "(\<And>a b. logs_all (f a b)) \<Longrightarrow> logs_all (case p of (a, b) \<Rightarrow> f a b)"
  by (cases p) simp

lemma logs_all_process_travel_request: "logs_all (process_travel_request e q)"
  unfolding process_travel_request_def
  by (rule logs_all_bind logs_all_failed logs_all_finish logs_all_case_option
        logs_all_case_prod)+

lemma digits_0: "digits 0 = ''0''"
  by (simp add: digits.simps [of 0] digit_char_def)

text \<open>The request of the example, run on a new server.\<close>

lemma example_run:
  "process_travel_request example_env example_query new_server
     = (Inr (Done example_response), example_server)"
  by (simp add: process_travel_request_def weather_step_def flight_step_def hotel_step_def
        style_step_def draft_step_def places_step_def review_step_def refinement_step_def
        finish_def example_env_def example_query_def new_server_def example_planner_def
        example_reviewer_def reviewer_process_def no_hotels_def failing_hotel_tool_def
        example_loads_def example_history_def example_calls_def example_log_def
        example_response_def example_server_def draft_example_def
        search_kwargs_def dict_get_def dict_item_def ebind_def sbind_def lift_def ret_def
        send_command_def complete_command_def call_api_tool_def record_call_def Let_def
        city_only_def strip_def is_space_def py_len_def py_index_def
        count_text_def digits_0 data_or_empty_def value_or_none_def log_entry_def)

text \<open>
  C10. The command history belongs to the server: on a server whose ids are in order
  (as on a new server), a request leaves the ids in order, so the ids of its commands
  continue after those already there; the commands of the earlier requests stay,
  unchanged, at the front of the history; and the \<^verbatim>\<open>mcp_commands\<close> of the returned
  collaboration log is the whole history of the server, not only the commands of this
  request.
\<close>

theorem history_spans_requests:
  assumes "ids_in_order s"
  shows "ids_in_order (snd (process_travel_request e q s))
    \<and> prefix (command_history s) (command_history (snd (process_travel_request e q s)))
    \<and> (\<forall>r. fst (process_travel_request e q s) = Inr (Done r)
          \<longrightarrow> mcp_commands (collaboration_log r)
                = command_history (snd (process_travel_request e q s)))"
proof -
  from assms have "extends (command_history s) s"
    by (simp add: extends_def)
  with keeps_process_travel_request [of "command_history s" e q]
  have "extends (command_history s) (snd (process_travel_request e q s))"
    by (simp add: keeps_def)
  moreover from logs_all_process_travel_request [of e q]
  have "\<forall>r. fst (process_travel_request e q s) = Inr (Done r)
          \<longrightarrow> mcp_commands (collaboration_log r)
                = command_history (snd (process_travel_request e q s))"
    by (simp add: logs_all_def)
  ultimately show ?thesis by (simp add: extends_def)
qed

theorem history_spans_requests_witness:
  "ids_in_order new_server
   \<and> fst (process_travel_request example_env example_query new_server)
       = Inr (Done example_response)
   \<and> ids_in_order example_server
   \<and> prefix (command_history new_server) (command_history example_server)
   \<and> mcp_commands (collaboration_log example_response) = command_history example_server
   \<and> ids_in_order (snd (process_travel_request example_env example_query example_server))
   \<and> prefix (command_history example_server)
       (command_history (snd (process_travel_request example_env example_query example_server)))"
proof -
  have new: "ids_in_order new_server"
    by (simp add: ids_in_order_def new_server_def)
  from history_spans_requests [OF new, of example_env example_query]
  have first: "ids_in_order example_server"
    "prefix (command_history new_server) (command_history example_server)"
    "mcp_commands (collaboration_log example_response) = command_history example_server"
    by (simp_all add: example_run)
  from history_spans_requests [OF first(1), of example_env example_query]
  have second:
    "ids_in_order (snd (process_travel_request example_env example_query example_server))"
    "prefix (command_history example_server)
       (command_history (snd (process_travel_request example_env example_query example_server)))"
    by simp_all
  from new first second show ?thesis
    by (simp add: example_run)
qed

subsection \<open>The refinement step\<close>

lemma sbindE:
  assumes "sbind m f s = (Inr b, s')"
  obtains a s1 where "m s = (Inr a, s1)" and "f a s1 = (Inr b, s')"
  using assms by (auto simp add: sbind_def split: prod.splits sum.splits)

lemma yields_bind:
  assumes "\<And>a. yields (f a) Q"
  shows "yields (sbind m f) Q"
  unfolding yields_def
proof (intro allI impI)
  fix s b s'
  assume "sbind m f s = (Inr b, s')"
  then obtain a s1 where "f a s1 = (Inr b, s')" by (rule sbindE)
  with assms [of a] show "Q b" by (auto simp add: yields_def)
qed

lemma yields_ret: "Q a \<Longrightarrow> yields (ret a) Q"
  by (simp add: yields_def ret_def)

lemma yields_case_option:
  "(x = None \<Longrightarrow> yields a Q) \<Longrightarrow> (\<And>y. x = Some y \<Longrightarrow> yields (f y) Q)
     \<Longrightarrow> yields (case x of None \<Rightarrow> a | Some y \<Rightarrow> f y) Q"
  by (cases x) simp_all

lemma draft_step_planner:
  "yields (draft_step e q w fl h st)
     (\<lambda>d. \<forall>pl ini. d = Some (pl, ini) \<longrightarrow> map_of (agents e) ''planner'' = Some pl)"
  unfolding draft_step_def Let_def
  by (rule yields_bind yields_case_option yields_ret | simp)+

lemma keeps_ids:
  assumes "keeps [] m" and "ids_in_order s" and "m s = (x, s')"
  shows "ids_in_order s'"
  using assms by (auto simp add: keeps_def extends_def dest!: spec [of _ s])

lemma ensures_bind:
  assumes "keeps [] m" and "\<And>a. ensures (f a) Q"
  shows "ensures (sbind m f) Q"
  unfolding ensures_def
proof (intro allI impI)
  fix s b s'
  assume s: "ids_in_order s" and run: "sbind m f s = (Inr b, s')"
  from run obtain a s1 where m: "m s = (Inr a, s1)" and f: "f a s1 = (Inr b, s')"
    by (rule sbindE)
  from assms(1) s m have "ids_in_order s1" by (rule keeps_ids)
  with assms(2) [of a] f show "ids_in_order s' \<and> Q b s'"
    by (auto simp add: ensures_def)
qed

lemma ensures_bind_yields:
  assumes "keeps [] m" and "yields m R" and "\<And>a. R a \<Longrightarrow> ensures (f a) Q"
  shows "ensures (sbind m f) Q"
  unfolding ensures_def
proof (intro allI impI)
  fix s b s'
  assume s: "ids_in_order s" and run: "sbind m f s = (Inr b, s')"
  from run obtain a s1 where m: "m s = (Inr a, s1)" and f: "f a s1 = (Inr b, s')"
    by (rule sbindE)
  from assms(1) s m have "ids_in_order s1" by (rule keeps_ids)
  moreover from assms(2) m have "R a" by (auto simp add: yields_def)
  ultimately show "ids_in_order s' \<and> Q b s'"
    using assms(3) [of a] f by (auto simp add: ensures_def)
qed

lemma ensures_failed: "ensures (ret (Failed msg)) (\<lambda>out s'. \<forall>r. out = Done r \<longrightarrow> Q r s')"
  by (simp add: ensures_def ret_def)

lemma ensures_case_option:
  "ensures a Q \<Longrightarrow> (\<And>y. ensures (f y) Q)
     \<Longrightarrow> ensures (case x of None \<Rightarrow> a | Some y \<Rightarrow> f y) Q"
  by (cases x) simp_all

lemma mark_last:
  assumes "ids_in_order s" and "cmd_id c = Suc (length (command_history s))"
  shows "mark_first (Suc (length (command_history s))) st res (command_history s @ [c])
    = command_history s @ [c\<lparr>cmd_status := st, cmd_result := res\<rparr>]"
proof -
  have "Suc (length (command_history s)) \<notin> set (map cmd_id (command_history s))"
    using assms(1) unfolding ids_in_order_def by (simp del: upt_Suc)
  then have "Suc (length (command_history s)) \<notin> cmd_id ` set (command_history s)"
    by simp
  with assms(2) show ?thesis
    by (simp add: mark_first_append)
qed

lemma refinement_result:
  assumes s: "ids_in_order s"
    and run: "refinement_step e planner initial ha w p h f s = (Inr final, s')"
  shows "\<exists>prompt answer old c.
        calls s' = calls s @ [AgentGenerate ''planner'' prompt]
      \<and> generate_response planner prompt = Inr answer
      \<and> command_history s' = old @ [c]
      \<and> cmd_name c = ''REQUEST_REFINEMENT''
      \<and> (case json_loads e answer of
           Inr parsed \<Rightarrow> final = parsed \<and> cmd_status c = ''completed''
         | Inl ex \<Rightarrow> ex = JSONDecodeError \<and> final = initial
                      \<and> cmd_status c = ''completed_with_warning'')"
  using run mark_last [OF s]
  by (auto simp add: refinement_step_def sbind_def lift_def ret_def send_command_def
        complete_command_def record_call_def Let_def
        split: sum.splits exn.splits prod.splits)


lemma ensures_case_option_eq:
  "(x = None \<Longrightarrow> ensures a Q) \<Longrightarrow> (\<And>y. x = Some y \<Longrightarrow> ensures (f y) Q)
     \<Longrightarrow> ensures (case x of None \<Rightarrow> a | Some y \<Rightarrow> f y) Q"
  by (cases x) simp_all

lemma ensures_case_prod_eq:
  "(\<And>a b. p = (a, b) \<Longrightarrow> ensures (f a b) Q) \<Longrightarrow> ensures (case p of (a, b) \<Rightarrow> f a b) Q"
  by (cases p) simp

lemma ensures_refine_finish:
  assumes planner: "map_of (agents e) ''planner'' = Some planner"
  shows "ensures
     (sbind (refinement_step e planner initial ha w p h f)
        (\<lambda>final. finish q st initial ha final w p h f))
     (\<lambda>out s'. \<forall>r. out = Done r \<longrightarrow> refined e r s')"
  unfolding ensures_def
proof (intro allI impI)
  fix s out s'
  assume s: "ids_in_order s"
    and run: "sbind (refinement_step e planner initial ha w p h f)
                (\<lambda>final. finish q st initial ha final w p h f) s = (Inr out, s')"
  from run obtain final s1
    where step: "refinement_step e planner initial ha w p h f s = (Inr final, s1)"
      and fin: "finish q st initial ha final w p h f s1 = (Inr out, s')"
    by (rule sbindE)
  from keeps_refinement_step s step have s1: "ids_in_order s1"
    by (rule keeps_ids)
  from refinement_result [OF s step] obtain prompt answer old c
    where c: "calls s1 = calls s @ [AgentGenerate ''planner'' prompt]"
      and g: "generate_response planner prompt = Inr answer"
      and h: "command_history s1 = old @ [c]"
      and n: "cmd_name c = ''REQUEST_REFINEMENT''"
      and j: "case json_loads e answer of
                Inr parsed \<Rightarrow> final = parsed \<and> cmd_status c = ''completed''
              | Inl ex \<Rightarrow> ex = JSONDecodeError \<and> final = initial
                           \<and> cmd_status c = ''completed_with_warning''"
    by blast
  from fin have out: "\<exists>r. out = Done r \<and> final_itinerary r = final
      \<and> initial_itinerary r = initial"
    and s': "command_history s' = command_history s1" "calls s' = calls s1"
    by (auto simp add: finish_def Let_def)
  from s1 s' have "ids_in_order s'" by (simp add: ids_in_order_def)
  moreover have "refined e r s'" if "out = Done r" for r
  proof -
    from out that have r: "final_itinerary r = final" "initial_itinerary r = initial"
      by auto
    from j r have "case json_loads e answer of
        Inr parsed \<Rightarrow> final_itinerary r = parsed
          \<and> cmd_status (last (command_history s')) = ''completed''
      | Inl ex \<Rightarrow> ex = JSONDecodeError \<and> final_itinerary r = initial_itinerary r
          \<and> cmd_status (last (command_history s')) = ''completed_with_warning''"
      by (simp add: s' h split: sum.splits)
    with planner c g h n s' show ?thesis
      unfolding refined_def by (intro exI [of _ planner] exI [of _ prompt] exI [of _ answer]) simp
  qed
  ultimately show "ids_in_order s' \<and> (\<forall>r. out = Done r \<longrightarrow> refined e r s')"
    by simp
qed

lemma ensures_process_travel_request:
  "ensures (process_travel_request e q) (\<lambda>out s'. \<forall>r. out = Done r \<longrightarrow> refined e r s')"
  unfolding process_travel_request_def
  apply (rule ensures_bind [OF keeps_lift])
  apply (rule ensures_bind [OF keeps_lift])
  apply (rule ensures_bind [OF keeps_weather_step])
  apply (rule ensures_bind [OF keeps_flight_step])
  apply (rule ensures_bind [OF keeps_hotel_step])
  apply (rule ensures_bind [OF keeps_style_step])
  apply (rule ensures_bind_yields [OF keeps_draft_step draft_step_planner])
  apply (rule ensures_case_option_eq)
   apply (rule ensures_failed)
  apply (rule ensures_case_prod_eq)
  apply (rule ensures_bind [OF keeps_places_step])
  apply (rule ensures_bind [OF keeps_review_step])
  apply (rule ensures_case_option_eq)
   apply (rule ensures_failed)
  apply (rule ensures_refine_finish)
  apply simp
  done

text \<open>
  C1. Whenever a request returns a full response, the last call that left the server was
  the planner's \<^verbatim>\<open>generate_response\<close> on the refinement prompt, and the last command is
  the refinement command. If the answer parses, the final itinerary is the parsed value
  and the command is \<^verbatim>\<open>completed\<close>; if it does not, the parser raised
  \<^verbatim>\<open>JSONDecodeError\<close>, the final itinerary is the draft itself and the command is
  \<^verbatim>\<open>completed_with_warning\<close>.
\<close>

theorem refinement_falls_back_to_draft:
  assumes "ids_in_order s"
    and "process_travel_request e q s = (Inr (Done r), s')"
  shows "\<exists>planner prompt answer.
        map_of (agents e) ''planner'' = Some planner
      \<and> last (calls s') = AgentGenerate ''planner'' prompt
      \<and> generate_response planner prompt = Inr answer
      \<and> cmd_name (last (command_history s')) = ''REQUEST_REFINEMENT''
      \<and> (case json_loads e answer of
           Inr parsed \<Rightarrow>
             final_itinerary r = parsed
           \<and> cmd_status (last (command_history s')) = ''completed''
         | Inl ex \<Rightarrow>
             ex = JSONDecodeError
           \<and> final_itinerary r = initial_itinerary r
           \<and> cmd_status (last (command_history s')) = ''completed_with_warning'')"
proof -
  from ensures_process_travel_request [of e q] assms have "refined e r s'"
    by (auto simp add: ensures_def)
  then show ?thesis
    unfolding refined_def by blast
qed

theorem refinement_falls_back_to_draft_witness:
  "ids_in_order new_server
   \<and> process_travel_request example_env example_query new_server
       = (Inr (Done example_response), example_server)
   \<and> (\<exists>planner prompt answer.
        map_of (agents example_env) ''planner'' = Some planner
      \<and> last (calls example_server) = AgentGenerate ''planner'' prompt
      \<and> generate_response planner prompt = Inr answer
      \<and> cmd_name (last (command_history example_server)) = ''REQUEST_REFINEMENT''
      \<and> (case json_loads example_env answer of
           Inr parsed \<Rightarrow>
             final_itinerary example_response = parsed
           \<and> cmd_status (last (command_history example_server)) = ''completed''
         | Inl ex \<Rightarrow>
             ex = JSONDecodeError
           \<and> final_itinerary example_response = initial_itinerary example_response
           \<and> cmd_status (last (command_history example_server)) = ''completed_with_warning''))"
proof -
  have new: "ids_in_order new_server"
    by (simp add: ids_in_order_def new_server_def)
  from refinement_falls_back_to_draft [OF new example_run] new example_run
  show ?thesis by blast
qed

subsection \<open>The review step\<close>

lemma example_hotel_search:
  "fst (hotel_step example_env example_query ''Tokyo'' new_server) = Inr None"
  by (simp add: hotel_step_def example_env_def example_query_def new_server_def
        failing_hotel_tool_def search_kwargs_def dict_get_def ebind_def sbind_def lift_def
        ret_def send_command_def call_api_tool_def record_call_def Let_def)

text \<open>
  C2, as the code has it. The review step does not look at the outcome of the hotel
  search: with a registered reviewer, and with no hotels stored (the search failed, or
  found none), the orchestrator sends \<^verbatim>\<open>ANALYZE_HOTELS\<close> and calls the reviewer once, with
  an empty hotel list. The reviewer of the source answers with its
  \<^verbatim>\<open>No hotels to analyze\<close> error, which the orchestrator absorbs: the analysis and the
  recommendations are empty, the top pick is \<^verbatim>\<open>N/A\<close>, and the command is marked
  \<^verbatim>\<open>completed\<close> with \<^verbatim>\<open>0 hotels analyzed\<close>.
\<close>

theorem review_runs_without_hotels:
  assumes "ids_in_order s"
    and "map_of (agents e) ''reviewer'' = Some reviewer"
    and "process reviewer = reviewer_process fr search_reviews analyse"
    and "dict_get (data_or_empty hotels_result) ''hotels'' (PList []) = Inr (PList [])"
  shows "\<exists>request c.
        fst (review_step e (PDict kvs) hotels_result s)
          = Inr (Some (PDict [(''analysis'', PList []), (''recommendations'', PList []),
                              (''top_pick'', PStr ''N/A'')]))
      \<and> calls (snd (review_step e (PDict kvs) hotels_result s))
          = calls s @ [AgentProcess ''reviewer'' request]
      \<and> dict_item request ''hotels'' = Inr (PList [])
      \<and> process reviewer request = Inr no_hotels
      \<and> command_history (snd (review_step e (PDict kvs) hotels_result s))
          = command_history s @ [c]
      \<and> cmd_name c = ''ANALYZE_HOTELS''
      \<and> cmd_status c = ''completed''
      \<and> cmd_result c = PStr ''0 hotels analyzed''"
  using assms(2-4) mark_last [OF assms(1)]
  by (simp add: review_step_def sbind_def lift_def ret_def send_command_def
        complete_command_def record_call_def Let_def dict_get_def dict_item_def
        reviewer_process_def no_hotels_def ebind_def py_len_def py_index_def
        count_text_def digits_0 split: option.splits)

theorem review_runs_without_hotels_witness:
  "ids_in_order new_server
   \<and> map_of (agents example_env) ''reviewer'' = Some example_reviewer
   \<and> process example_reviewer
       = reviewer_process (\<lambda>r. []) (\<lambda>text. Inr []) (\<lambda>hotels reviews prefs. Inr (PDict []))
   \<and> dict_get (data_or_empty None) ''hotels'' (PList []) = Inr (PList [])
   \<and> (\<exists>request c.
        fst (review_step example_env example_query None new_server)
          = Inr (Some (PDict [(''analysis'', PList []), (''recommendations'', PList []),
                              (''top_pick'', PStr ''N/A'')]))
      \<and> calls (snd (review_step example_env example_query None new_server))
          = calls new_server @ [AgentProcess ''reviewer'' request]
      \<and> dict_item request ''hotels'' = Inr (PList [])
      \<and> process example_reviewer request = Inr no_hotels
      \<and> command_history (snd (review_step example_env example_query None new_server))
          = command_history new_server @ [c]
      \<and> cmd_name c = ''ANALYZE_HOTELS''
      \<and> cmd_status c = ''completed''
      \<and> cmd_result c = PStr ''0 hotels analyzed'')"
proof -
  have new: "ids_in_order new_server"
    by (simp add: ids_in_order_def new_server_def)
  have reviewer: "map_of (agents example_env) ''reviewer'' = Some example_reviewer"
    by (simp add: example_env_def)
  have source: "process example_reviewer
      = reviewer_process (\<lambda>r. []) (\<lambda>text. Inr []) (\<lambda>hotels reviews prefs. Inr (PDict []))"
    by (simp add: example_reviewer_def)
  have none: "dict_get (data_or_empty None) ''hotels'' (PList []) = Inr (PList [])"
    by (simp add: data_or_empty_def dict_get_def)
  from review_runs_without_hotels [OF new reviewer source none,
      of "[(''origin'', PStr ''Seoul''), (''destination'', PStr ''Tokyo''),
           (''days'', PInt 1), (''people'', PInt 2)]", folded example_query_def]
    new reviewer source none
  show ?thesis by blast
qed

text \<open>
  C2 as stated fails. In the example the hotel search reports a failure, so that no
  hotel data is stored; the request still runs to its end, and among the calls that left
  the server is the reviewer's \<^verbatim>\<open>process\<close> with an empty hotel list, to which the reviewer
  of the source answers with its \<^verbatim>\<open>No hotels to analyze\<close> error.
\<close>

theorem review_not_skipped_counterexample:
  "fst (hotel_step example_env example_query ''Tokyo'' new_server) = Inr None
   \<and> process_travel_request example_env example_query new_server
       = (Inr (Done example_response), example_server)
   \<and> AgentProcess ''reviewer''
        (PDict [(''hotels'', PList []), (''preferences'', PNone),
                (''destination'', PStr ''Tokyo'')])
       \<in> set (calls example_server)
   \<and> process example_reviewer
        (PDict [(''hotels'', PList []), (''preferences'', PNone),
                (''destination'', PStr ''Tokyo'')])
       = Inr no_hotels"
  using example_hotel_search example_run
  by (simp add: example_server_def example_calls_def example_reviewer_def
        reviewer_process_def dict_get_def ebind_def)

subsection \<open>The weather step\<close>









text \<open>The merge of the example: the entry of the first forecast keeps its place by date.\<close>

lemma example_merge:
  "merge_forecasts (PList first_forecast) (PList plain_forecast)
     = Inr (PList [plain_forecast ! 0, first_forecast ! 0, plain_forecast ! 2])"
  by (simp add: merge_forecasts_def first_forecast_def plain_forecast_def ebind_def
        dict_item_def dict_get_def hashable_def in_dates_def key_eq_def sort_by_date_def
        is_str_def str_key_def)



subsection \<open>Reconciliation: which steps are guarded\<close>







subsection \<open>Reconciliation: the number of day entries\<close>


























subsection \<open>Reconciliation: the last day\<close>





















end
